theory Spec2Isabelle
  imports Complex_Main
begin

section \<open>Values and errors\<close>

text \<open>
  The tween engine of \<^verbatim>\<open>pygame_utils\<close> interpolates Python values. The shapes that
  \<^verbatim>\<open>lerp\<close> tells apart by \<^verbatim>\<open>type(a)\<close> are a closed datatype here: \<^verbatim>\<open>int\<close>,
  \<^verbatim>\<open>float\<close>, \<^verbatim>\<open>str\<close>, \<^verbatim>\<open>list\<close>, \<^verbatim>\<open>tuple\<close>, and \<^verbatim>\<open>None\<close> as the
  representative of every other type. Python's unbounded \<^verbatim>\<open>int\<close> is \<open>int\<close>. A
  \<^verbatim>\<open>str\<close> is a list of characters, one element per code point. A finite \<^verbatim>\<open>float\<close> is
  \<open>VFloat r\<close> with the real number \<open>r\<close> that it stands for; the two infinities and
  NaN are the one value \<open>VNonFinite\<close>.
\<close>

datatype val =
    VInt int
  | VFloat real
  | VNonFinite
  | VStr string
  | VList "val list"
  | VTuple "val list"
  | VNone

text \<open>
  \<open>FloatToIntError\<close> is the exception of \<^verbatim>\<open>int(x)\<close> on a float that is not finite
  (\<^verbatim>\<open>OverflowError\<close> for an infinity, \<^verbatim>\<open>ValueError\<close> for NaN).
\<close>

datatype error =
  TypeError | ZeroDivisionError | ValueError | KeyError | OverflowError | FloatToIntError

subsection \<open>Floating-point arithmetic\<close>

text \<open>
  A Python \<^verbatim>\<open>float\<close> is an IEEE 754 double: 53 significant bits, exponents from
  \<open>-1022\<close> to \<open>1023\<close>, results rounded to the nearest double, ties to the even
  significand. \<open>fl x\<close> is the double that the real number \<open>x\<close> rounds to, or \<open>None\<close>
  when \<open>x\<close> rounds beyond the largest double, which gives an infinity. Below
  \<open>2\<^sup>-\<^sup>1\<^sup>0\<^sup>2\<^sup>2\<close> the spacing stays at \<open>2\<^sup>-\<^sup>1\<^sup>0\<^sup>7\<^sup>4\<close> (subnormal numbers). The sign of a
  zero is not kept: \<^verbatim>\<open>0.0 == -0.0\<close> in Python, and no operation of \<^verbatim>\<open>lerp\<close> tells them
  apart.
\<close>

definition round_even :: "real \<Rightarrow> int" where
  "round_even y =
     (let f = \<lfloor>y\<rfloor>; d = y - of_int f
      in if d < 1 / 2 then f else if 1 / 2 < d then f + 1 else if even f then f else f + 1)"

definition fl :: "real \<Rightarrow> real option" where
  "fl x =
     (if x = 0 then Some 0
      else
        let e = max \<lfloor>log 2 \<bar>x\<bar>\<rfloor> (- 1022);
            u = 2 powr (of_int (e - 52));
            r = of_int (round_even (x / u)) * u
        in if 2 powr 1024 \<le> \<bar>r\<bar> then None else Some r)"

text \<open>
  A float operand is \<open>Some r\<close> (finite) or \<open>None\<close> (an infinity or NaN). Addition,
  subtraction and multiplication of a non-finite operand with anything give a
  non-finite result (\<^verbatim>\<open>inf - inf\<close> and \<^verbatim>\<open>inf * 0\<close> are NaN), so \<open>None\<close> absorbs.
\<close>

type_synonym pyfloat = "real option"

definition fadd :: "pyfloat \<Rightarrow> pyfloat \<Rightarrow> pyfloat" where
  "fadd x y = (case x of None \<Rightarrow> None | Some a \<Rightarrow> (case y of None \<Rightarrow> None | Some b \<Rightarrow> fl (a + b)))"

definition fsub :: "pyfloat \<Rightarrow> pyfloat \<Rightarrow> pyfloat" where
  "fsub x y = (case x of None \<Rightarrow> None | Some a \<Rightarrow> (case y of None \<Rightarrow> None | Some b \<Rightarrow> fl (a - b)))"

definition fmul :: "pyfloat \<Rightarrow> pyfloat \<Rightarrow> pyfloat" where
  "fmul x y = (case x of None \<Rightarrow> None | Some a \<Rightarrow> (case y of None \<Rightarrow> None | Some b \<Rightarrow> fl (a * b)))"

definition float_val :: "pyfloat \<Rightarrow> val" where
  "float_val x = (case x of None \<Rightarrow> VNonFinite | Some r \<Rightarrow> VFloat r)"

text \<open>
  An \<^verbatim>\<open>int\<close> operand of a float operation is converted to the nearest double;
  Python raises \<^verbatim>\<open>OverflowError\<close> when the integer is too large for a float.
\<close>

definition int_to_float :: "int \<Rightarrow> error + pyfloat" where
  "int_to_float k = (case fl (of_int k) of None \<Rightarrow> Inl OverflowError | Some r \<Rightarrow> Inr (Some r))"

text \<open>Python's \<^verbatim>\<open>int(x)\<close> on a float truncates toward zero.\<close>

definition py_int :: "real \<Rightarrow> int" where
  "py_int r = (if 0 \<le> r then \<lfloor>r\<rfloor> else \<lceil>r\<rceil>)"

definition float_to_int :: "pyfloat \<Rightarrow> error + int" where
  "float_to_int x = (case x of None \<Rightarrow> Inl FloatToIntError | Some r \<Rightarrow> Inr (py_int r))"

subsection \<open>Slices and iteration\<close>

text \<open>
  The slice \<^verbatim>\<open>b[:pos]\<close>: a non-negative bound keeps the first \<open>pos\<close> elements (all of
  them when \<open>pos\<close> exceeds the length), a negative bound counts from the end, so it drops
  the last \<open>-pos\<close> elements (and leaves nothing when there are fewer).
\<close>

definition slice_to :: "'a list \<Rightarrow> int \<Rightarrow> 'a list" where
  "slice_to b pos =
     (if pos < 0 then take (nat (int (length b) + pos)) b else take (nat pos) b)"

text \<open>
  What \<^verbatim>\<open>zip(a, b)\<close> iterates over on the side of \<open>b\<close>: the elements of a list or a
  tuple, the one-character strings of a string; \<^verbatim>\<open>zip\<close> raises \<^verbatim>\<open>TypeError\<close> on a
  value that is not iterable.
\<close>

fun iter_val :: "val \<Rightarrow> error + val list" where
  "iter_val (VList ys) = Inr ys"
| "iter_val (VTuple ys) = Inr ys"
| "iter_val (VStr s) = Inr (map (\<lambda>c. VStr [c]) s)"
| "iter_val (VInt _) = Inl TypeError"
| "iter_val (VFloat _) = Inl TypeError"
| "iter_val VNonFinite = Inl TypeError"
| "iter_val VNone = Inl TypeError"

section \<open>The interpolator\<close>

text \<open>
  \<^verbatim>\<open>lerp(a, b, value)\<close> of \<^verbatim>\<open>tween.py\<close>, branch by branch in the order of the source.
  The interpolation factor \<open>value\<close> is a finite float (the docstring: 0.0 to 1.0; the
  tween passes the value of the curve), given by the real number it stands for.
  \<^item> \<open>float_operand b\<close> is \<open>b\<close> as the operand of a subtraction with a number: a float
    as it is, an \<^verbatim>\<open>int\<close> converted, \<^verbatim>\<open>TypeError\<close> for anything else.
  \<^item> \<open>int_scaled d value\<close> is \<^verbatim>\<open>int(d * value)\<close> for an \<^verbatim>\<open>int\<close> \<open>d\<close>: \<open>d\<close> is
    converted to a float, the product is rounded, and \<^verbatim>\<open>int\<close> truncates it.
  \<^item> \<open>lerp_zip\<close> is the comprehension over \<^verbatim>\<open>zip(a, b)\<close>: it stops at the shorter
    side, and the first element that raises aborts the whole comprehension.
  The branches:
  \<^item> \<^verbatim>\<open>list\<close>, \<^verbatim>\<open>tuple\<close>: element-wise, the result has the type of \<open>a\<close>;
  \<^item> \<^verbatim>\<open>int\<close>: \<^verbatim>\<open>a + int((b - a) * value)\<close>, where \<^verbatim>\<open>b - a\<close> is an exact integer for
    an \<^verbatim>\<open>int\<close> \<open>b\<close> and a float for a float \<open>b\<close>;
  \<^item> \<^verbatim>\<open>float\<close>: \<^verbatim>\<open>a + (b - a) * value\<close>, each operation rounded;
  \<^item> \<^verbatim>\<open>str\<close>: \<^verbatim>\<open>b[:int((len(b) - len(a)) * value)]\<close>; \<open>b\<close> must have a length, and
    the slice has the type of \<open>b\<close>;
  \<^item> anything else: \<open>b\<close> unchanged.
\<close>

fun float_operand :: "val \<Rightarrow> error + pyfloat" where
  "float_operand (VInt k) = int_to_float k"
| "float_operand (VFloat r) = Inr (Some r)"
| "float_operand VNonFinite = Inr None"
| "float_operand _ = Inl TypeError"

definition int_scaled :: "int \<Rightarrow> real \<Rightarrow> error + int" where
  "int_scaled d v =
     (case int_to_float d of
        Inl e \<Rightarrow> Inl e
      | Inr fd \<Rightarrow> float_to_int (fmul fd (Some v)))"

text \<open>The float branch, for the float \<open>a\<close> as an operand.\<close>

definition lerp_float :: "pyfloat \<Rightarrow> val \<Rightarrow> real \<Rightarrow> error + val" where
  "lerp_float a b v =
     (case float_operand b of
        Inl e \<Rightarrow> Inl e
      | Inr fb \<Rightarrow> Inr (float_val (fadd a (fmul (fsub fb a) (Some v)))))"

fun lerp :: "val \<Rightarrow> val \<Rightarrow> real \<Rightarrow> error + val"
  and lerp_zip :: "val list \<Rightarrow> val list \<Rightarrow> real \<Rightarrow> error + val list" where
  "lerp (VList xs) b v =
     (case iter_val b of
        Inl e \<Rightarrow> Inl e
      | Inr ys \<Rightarrow> (case lerp_zip xs ys v of Inl e \<Rightarrow> Inl e | Inr rs \<Rightarrow> Inr (VList rs)))"
| "lerp (VTuple xs) b v =
     (case iter_val b of
        Inl e \<Rightarrow> Inl e
      | Inr ys \<Rightarrow> (case lerp_zip xs ys v of Inl e \<Rightarrow> Inl e | Inr rs \<Rightarrow> Inr (VTuple rs)))"
| "lerp (VInt a) b v =
     (case b of
        VInt b' \<Rightarrow>
          (case int_scaled (b' - a) v of Inl e \<Rightarrow> Inl e | Inr n \<Rightarrow> Inr (VInt (a + n)))
      | _ \<Rightarrow>
          (case float_operand b of
             Inl e \<Rightarrow> Inl e
           | Inr fb \<Rightarrow>
               (case int_to_float a of
                  Inl e \<Rightarrow> Inl e
                | Inr fa \<Rightarrow>
                    (case float_to_int (fmul (fsub fb fa) (Some v)) of
                       Inl e \<Rightarrow> Inl e
                     | Inr n \<Rightarrow> Inr (VInt (a + n))))))"
| "lerp (VFloat a) b v = lerp_float (Some a) b v"
| "lerp VNonFinite b v = lerp_float None b v"
| "lerp (VStr a) b v =
     (case b of
        VStr s \<Rightarrow>
          (case int_scaled (int (length s) - int (length a)) v of
             Inl e \<Rightarrow> Inl e
           | Inr pos \<Rightarrow> Inr (VStr (slice_to s pos)))
      | VList ys \<Rightarrow>
          (case int_scaled (int (length ys) - int (length a)) v of
             Inl e \<Rightarrow> Inl e
           | Inr pos \<Rightarrow> Inr (VList (slice_to ys pos)))
      | VTuple ys \<Rightarrow>
          (case int_scaled (int (length ys) - int (length a)) v of
             Inl e \<Rightarrow> Inl e
           | Inr pos \<Rightarrow> Inr (VTuple (slice_to ys pos)))
      | _ \<Rightarrow> Inl TypeError)"
| "lerp VNone b v = Inr b"
| "lerp_zip [] ys v = Inr []"
| "lerp_zip (x # xs) [] v = Inr []"
| "lerp_zip (x # xs) (y # ys) v =
     (case lerp x y v of
        Inl e \<Rightarrow> Inl e
      | Inr r \<Rightarrow> (case lerp_zip xs ys v of Inl e \<Rightarrow> Inl e | Inr rs \<Rightarrow> Inr (r # rs)))"

section \<open>The easing library\<close>

text \<open>
  \<^verbatim>\<open>EasingFunctions.linear\<close> is \<open>linear_ease\<close> here (HOL has a constant \<open>linear\<close>).
  The curves of \<^verbatim>\<open>EasingFunctions\<close> in \<^verbatim>\<open>easing.py\<close>, on the signature
  \<open>(t, b, c, d)\<close>: current time, start value, change in value, duration. A division by
  \<open>d\<close> (or by \<open>d/2\<close>) raises \<^verbatim>\<open>ZeroDivisionError\<close> when \<open>d = 0\<close>, and
  \<^verbatim>\<open>math.sqrt\<close> raises \<^verbatim>\<open>ValueError\<close> on a negative argument; both are results here.
  \<^verbatim>\<open>math.pow(2, x)\<close> is \<open>2 powr x\<close>. The curves, and the fraction of the duration that
  \<^verbatim>\<open>update\<close> passes to them, are computed in the real numbers; what is proved of them
  below is their values at 0 and at 1 and the lookup by name.
\<close>

type_synonym easing_function = "real \<Rightarrow> real \<Rightarrow> real \<Rightarrow> real \<Rightarrow> error + real"

definition linear_ease :: easing_function where
  "linear_ease t b c d = (if d = 0 then Inl ZeroDivisionError else Inr (c * t / d + b))"

definition ease_in_quad :: easing_function where
  "ease_in_quad t b c d =
     (if d = 0 then Inl ZeroDivisionError
      else let t = t / d in Inr (c * t * t + b))"

definition ease_out_quad :: easing_function where
  "ease_out_quad t b c d =
     (if d = 0 then Inl ZeroDivisionError
      else let t = t / d in Inr (- c * t * (t - 2) + b))"

definition ease_in_out_quad :: easing_function where
  "ease_in_out_quad t b c d =
     (if d / 2 = 0 then Inl ZeroDivisionError
      else let t = t / (d / 2) in
        if t < 1 then Inr (c / 2 * t * t + b)
        else let t = t - 1 in Inr (- c / 2 * (t * (t - 2) - 1) + b))"

definition ease_in_cubic :: easing_function where
  "ease_in_cubic t b c d =
     (if d = 0 then Inl ZeroDivisionError
      else let t = t / d in Inr (c * t * t * t + b))"

definition ease_out_cubic :: easing_function where
  "ease_out_cubic t b c d =
     (if d = 0 then Inl ZeroDivisionError
      else let t = t / d; t = t - 1 in Inr (c * (t * t * t + 1) + b))"

definition ease_in_out_cubic :: easing_function where
  "ease_in_out_cubic t b c d =
     (if d / 2 = 0 then Inl ZeroDivisionError
      else let t = t / (d / 2) in
        if t < 1 then Inr (c / 2 * t * t * t + b)
        else let t = t - 2 in Inr (c / 2 * (t * t * t + 2) + b))"

definition ease_in_quart :: easing_function where
  "ease_in_quart t b c d =
     (if d = 0 then Inl ZeroDivisionError
      else let t = t / d in Inr (c * t * t * t * t + b))"

definition ease_out_quart :: easing_function where
  "ease_out_quart t b c d =
     (if d = 0 then Inl ZeroDivisionError
      else let t = t / d; t = t - 1 in Inr (- c * (t * t * t * t - 1) + b))"

definition ease_in_out_quart :: easing_function where
  "ease_in_out_quart t b c d =
     (if d / 2 = 0 then Inl ZeroDivisionError
      else let t = t / (d / 2) in
        if t < 1 then Inr (c / 2 * t * t * t * t + b)
        else let t = t - 2 in Inr (- c / 2 * (t * t * t * t - 2) + b))"

definition ease_in_quint :: easing_function where
  "ease_in_quint t b c d =
     (if d = 0 then Inl ZeroDivisionError
      else let t = t / d in Inr (c * t * t * t * t * t + b))"

definition ease_out_quint :: easing_function where
  "ease_out_quint t b c d =
     (if d = 0 then Inl ZeroDivisionError
      else let t = t / d; t = t - 1 in Inr (c * (t * t * t * t * t + 1) + b))"

definition ease_in_out_quint :: easing_function where
  "ease_in_out_quint t b c d =
     (if d / 2 = 0 then Inl ZeroDivisionError
      else let t = t / (d / 2) in
        if t < 1 then Inr (c / 2 * t * t * t * t * t + b)
        else let t = t - 2 in Inr (c / 2 * (t * t * t * t * t + 2) + b))"

definition ease_in_sine :: easing_function where
  "ease_in_sine t b c d =
     (if d = 0 then Inl ZeroDivisionError
      else Inr (- c * cos (t / d * (pi / 2)) + c + b))"

definition ease_out_sine :: easing_function where
  "ease_out_sine t b c d =
     (if d = 0 then Inl ZeroDivisionError
      else Inr (c * sin (t / d * (pi / 2)) + b))"

definition ease_in_out_sine :: easing_function where
  "ease_in_out_sine t b c d =
     (if d = 0 then Inl ZeroDivisionError
      else Inr (- c / 2 * (cos (pi * t / d) - 1) + b))"

definition ease_in_expo :: easing_function where
  "ease_in_expo t b c d =
     (if d = 0 then Inl ZeroDivisionError
      else Inr (c * (2 powr (10 * (t / d - 1))) + b))"

definition ease_out_expo :: easing_function where
  "ease_out_expo t b c d =
     (if d = 0 then Inl ZeroDivisionError
      else Inr (c * (- (2 powr (- 10 * t / d)) + 1) + b))"

definition ease_in_out_expo :: easing_function where
  "ease_in_out_expo t b c d =
     (if d / 2 = 0 then Inl ZeroDivisionError
      else let t = t / (d / 2) in
        if t < 1 then Inr (c / 2 * (2 powr (10 * (t - 1))) + b)
        else let t = t - 1 in Inr (c / 2 * (- (2 powr (- 10 * t)) + 2) + b))"

definition ease_in_circ :: easing_function where
  "ease_in_circ t b c d =
     (if d = 0 then Inl ZeroDivisionError
      else let t = t / d in
        if 1 - t * t < 0 then Inl ValueError
        else Inr (- c * (sqrt (1 - t * t) - 1) + b))"

definition ease_out_circ :: easing_function where
  "ease_out_circ t b c d =
     (if d = 0 then Inl ZeroDivisionError
      else let t = t / d; t = t - 1 in
        if 1 - t * t < 0 then Inl ValueError
        else Inr (c * sqrt (1 - t * t) + b))"

definition ease_in_out_circ :: easing_function where
  "ease_in_out_circ t b c d =
     (if d / 2 = 0 then Inl ZeroDivisionError
      else let t = t / (d / 2) in
        if t < 1 then
          (if 1 - t * t < 0 then Inl ValueError
           else Inr (- c / 2 * (sqrt (1 - t * t) - 1) + b))
        else let t = t - 2 in
          if 1 - t * t < 0 then Inl ValueError
          else Inr (c / 2 * (sqrt (1 - t * t) + 1) + b))"

text \<open>
  The elastic curves take an optional amplitude \<open>a\<close> and period \<open>p\<close> (\<open>None\<close> when
  omitted). The four lines that choose period, amplitude and phase are the same in the
  three curves but for the default period: \<^verbatim>\<open>not p\<close> holds for \<open>None\<close> and for \<open>0\<close>,
  likewise \<^verbatim>\<open>not a\<close>. The result is \<open>(a, s, p)\<close>. In the \<^verbatim>\<open>else\<close> branch \<open>a\<close> is not
  zero and \<open>\<bar>c\<bar> \<le> a\<close>, so \<^verbatim>\<open>math.asin(c/a)\<close> is defined.
\<close>

definition elastic_params ::
  "real \<Rightarrow> real \<Rightarrow> real option \<Rightarrow> real option \<Rightarrow> real \<times> real \<times> real" where
  "elastic_params c p_default a p =
     (let p = (case p of None \<Rightarrow> p_default | Some p' \<Rightarrow> if p' = 0 then p_default else p') in
      case a of
        None \<Rightarrow> (c, p / 4, p)
      | Some a' \<Rightarrow>
          if a' = 0 \<or> a' < \<bar>c\<bar> then (c, p / 4, p)
          else (a', p / (2 * pi) * arcsin (c / a'), p))"

definition ease_in_elastic ::
  "real \<Rightarrow> real \<Rightarrow> real \<Rightarrow> real \<Rightarrow> real option \<Rightarrow> real option \<Rightarrow> error + real" where
  "ease_in_elastic t b c d a p =
     (if t = 0 then Inr b
      else if d = 0 then Inl ZeroDivisionError
      else let t = t / d in
        if t = 1 then Inr (b + c)
        else case elastic_params c (d * 0.3) a p of (a, s, p) \<Rightarrow>
          let t = t - 1 in
          Inr (- (a * (2 powr (10 * t)) * sin ((t * d - s) * (2 * pi) / p)) + b))"

definition ease_out_elastic ::
  "real \<Rightarrow> real \<Rightarrow> real \<Rightarrow> real \<Rightarrow> real option \<Rightarrow> real option \<Rightarrow> error + real" where
  "ease_out_elastic t b c d a p =
     (if t = 0 then Inr b
      else if d = 0 then Inl ZeroDivisionError
      else let t = t / d in
        if t = 1 then Inr (b + c)
        else case elastic_params c (d * 0.3) a p of (a, s, p) \<Rightarrow>
          Inr (a * (2 powr (- 10 * t)) * sin ((t * d - s) * (2 * pi) / p) + c + b))"

definition ease_in_out_elastic ::
  "real \<Rightarrow> real \<Rightarrow> real \<Rightarrow> real \<Rightarrow> real option \<Rightarrow> real option \<Rightarrow> error + real" where
  "ease_in_out_elastic t b c d a p =
     (if t = 0 then Inr b
      else if d / 2 = 0 then Inl ZeroDivisionError
      else let t = t / (d / 2) in
        if t = 2 then Inr (b + c)
        else case elastic_params c (d * (0.3 * 1.5)) a p of (a, s, p) \<Rightarrow>
          if t < 1 then
            let t = t - 1 in
            Inr (- 0.5 * (a * (2 powr (10 * t)) * sin ((t * d - s) * (2 * pi) / p)) + b)
          else
            let t = t - 1 in
            Inr (a * (2 powr (- 10 * t)) * sin ((t * d - s) * (2 * pi) / p) * 0.5 + c + b))"

subsection \<open>Normalised curves and the lookup by name\<close>

text \<open>
  \<^verbatim>\<open>_normalize_easing(func)\<close> of \<^verbatim>\<open>tween.py\<close> is the curve on normalised time:
  \<^verbatim>\<open>func(t, 0, 1, 1)\<close>. The elastic curves are wrapped with their optional arguments
  omitted. \<^verbatim>\<open>tween_functions_lookup\<close> is the dictionary literal, in its order;
  \<^verbatim>\<open>dict_get\<close> is the subscript \<^verbatim>\<open>d[k]\<close>, which raises \<^verbatim>\<open>KeyError\<close> on a missing key.
\<close>

definition normalize_easing :: "easing_function \<Rightarrow> real \<Rightarrow> error + real" where
  "normalize_easing func = (\<lambda>t. func t 0 1 1)"

definition tween_functions_lookup :: "(string \<times> (real \<Rightarrow> error + real)) list" where
  "tween_functions_lookup =
   [(''linear'', normalize_easing linear_ease),
    (''easeInQuad'', normalize_easing ease_in_quad),
    (''easeOutQuad'', normalize_easing ease_out_quad),
    (''easeInOutQuad'', normalize_easing ease_in_out_quad),
    (''easeInCubic'', normalize_easing ease_in_cubic),
    (''easeOutCubic'', normalize_easing ease_out_cubic),
    (''easeInOutCubic'', normalize_easing ease_in_out_cubic),
    (''easeInQuart'', normalize_easing ease_in_quart),
    (''easeOutQuart'', normalize_easing ease_out_quart),
    (''easeInOutQuart'', normalize_easing ease_in_out_quart),
    (''easeInQuint'', normalize_easing ease_in_quint),
    (''easeOutQuint'', normalize_easing ease_out_quint),
    (''easeInOutQuint'', normalize_easing ease_in_out_quint),
    (''easeInSine'', normalize_easing ease_in_sine),
    (''easeOutSine'', normalize_easing ease_out_sine),
    (''easeInOutSine'', normalize_easing ease_in_out_sine),
    (''easeInExpo'', normalize_easing ease_in_expo),
    (''easeOutExpo'', normalize_easing ease_out_expo),
    (''easeInOutExpo'', normalize_easing ease_in_out_expo),
    (''easeInCirc'', normalize_easing ease_in_circ),
    (''easeOutCirc'', normalize_easing ease_out_circ),
    (''easeInOutCirc'', normalize_easing ease_in_out_circ),
    (''easeInElastic'', normalize_easing (\<lambda>t b c d. ease_in_elastic t b c d None None)),
    (''easeOutElastic'', normalize_easing (\<lambda>t b c d. ease_out_elastic t b c d None None)),
    (''easeInOutElastic'',
       normalize_easing (\<lambda>t b c d. ease_in_out_elastic t b c d None None))]"

definition dict_get :: "('k \<times> 'v) list \<Rightarrow> 'k \<Rightarrow> error + 'v" where
  "dict_get d k = (case map_of d k of None \<Rightarrow> Inl KeyError | Some v \<Rightarrow> Inr v)"

definition get_tween :: "string \<Rightarrow> error + (real \<Rightarrow> error + real)" where
  "get_tween name =
     (if name \<in> fst ` set tween_functions_lookup then dict_get tween_functions_lookup name
      else dict_get tween_functions_lookup ''linear'')"

section \<open>Events\<close>

text \<open>
  \<^verbatim>\<open>Events\<close> of \<^verbatim>\<open>events.py\<close>: a dictionary from event names to the list of
  subscribed callbacks, in subscription order. A callback is a Python callable; the
  model knows it by an identity only, and takes a listener to be an observer: calling it
  does not call back into the tween. What a call of \<^verbatim>\<open>trigger\<close> does to the outside
  world is kept in \<open>history\<close>: one entry per call of \<^verbatim>\<open>trigger\<close>, with the event name,
  the argument and the listeners that \<^verbatim>\<open>fire\<close> called, in order (none when the event
  has no entry in the dictionary). \<open>history\<close> is not an attribute of the source:
  \<^verbatim>\<open>reset\<close> clears the listeners and leaves it alone.
\<close>

datatype callback = Callback nat

record Events =
  listeners :: "string \<rightharpoonup> callback list"
  history :: "(string \<times> val \<times> callback list) list"

definition Events_init :: Events where
  "Events_init = \<lparr>listeners = Map.empty, history = []\<rparr>"

definition Events_on :: "string \<Rightarrow> callback option \<Rightarrow> Events \<Rightarrow> Events" where
  "Events_on event_name cb ev =
     (case cb of
        None \<Rightarrow> ev
      | Some c \<Rightarrow>
          let l = (case listeners ev event_name of None \<Rightarrow> [] | Some l \<Rightarrow> l)
          in ev\<lparr>listeners := (listeners ev)(event_name \<mapsto> l @ [c])\<rparr>)"

definition Events_reset :: "Events \<Rightarrow> Events" where
  "Events_reset ev = ev\<lparr>listeners := Map.empty\<rparr>"

definition Events_off :: "string option \<Rightarrow> callback option \<Rightarrow> Events \<Rightarrow> Events" where
  "Events_off event_name cb ev =
     (case event_name of
        None \<Rightarrow> Events_reset ev
      | Some n \<Rightarrow>
          (case listeners ev n of
             None \<Rightarrow> ev
           | Some l \<Rightarrow>
               (case cb of
                  None \<Rightarrow> ev\<lparr>listeners := (listeners ev)(n := None)\<rparr>
                | Some c \<Rightarrow>
                    let l' = remove1 c l in
                    if length l' = 0 then ev\<lparr>listeners := (listeners ev)(n := None)\<rparr>
                    else ev\<lparr>listeners := (listeners ev)(n \<mapsto> l')\<rparr>)))"

definition Events_trigger :: "string \<Rightarrow> val \<Rightarrow> Events \<Rightarrow> Events" where
  "Events_trigger event_name arg ev =
     (case listeners ev event_name of
        None \<Rightarrow> ev\<lparr>history := history ev @ [(event_name, arg, [])]\<rparr>
      | Some l \<Rightarrow> ev\<lparr>history := history ev @ [(event_name, arg, l)]\<rparr>)"

section \<open>The tween state machine\<close>

text \<open>
  \<^verbatim>\<open>TweenProps\<close> and \<^verbatim>\<open>Tween\<close> of \<^verbatim>\<open>tween.py\<close>. The attribute \<^verbatim>\<open>Tween.value\<close> is
  \<open>tvalue\<close> and the counter \<^verbatim>\<open>Tween.pingpong\<close> is \<open>pingpong_n\<close> (\<open>pingpong\<close> is the
  configured number in the properties). The easing is given by its name. \<^verbatim>\<open>now()\<close>
  reads the wall clock in
  milliseconds; every operation takes the readings of the clock that it makes as
  arguments, in the order it makes them.
\<close>

record TweenProps =
  from_value :: val
  to_value :: val
  duration :: real
  easing :: string
  repeat :: int
  pingpong :: int

record Tween =
  props :: TweenProps
  tvalue :: val
  events :: Events
  start_time :: int
  time :: real
  is_paused :: bool
  pause_duration :: int
  paused_at :: int
  is_running :: bool
  is_completed :: bool
  direction :: int
  pingpong_n :: int
  count :: int

definition Tween_on :: "string \<Rightarrow> callback option \<Rightarrow> Tween \<Rightarrow> Tween" where
  "Tween_on event_name cb t = t\<lparr>events := Events_on event_name cb (events t)\<rparr>"

definition Tween_off :: "string option \<Rightarrow> callback option \<Rightarrow> Tween \<Rightarrow> Tween" where
  "Tween_off event_name cb t = t\<lparr>events := Events_off event_name cb (events t)\<rparr>"

definition Tween_reset :: "int \<Rightarrow> Tween \<Rightarrow> Tween" where
  "Tween_reset now t =
     t\<lparr>start_time := now, time := 0, is_paused := False, pause_duration := 0,
       paused_at := 0, is_running := False, is_completed := False\<rparr>"

definition Tween_start :: "int \<Rightarrow> Tween \<Rightarrow> Tween" where
  "Tween_start now t = t\<lparr>is_running := True, start_time := now\<rparr>"

definition Tween_stop :: "Tween \<Rightarrow> Tween" where
  "Tween_stop t =
     (let t = (if is_running t then t\<lparr>is_running := False\<rparr> else t)
      in t\<lparr>events := Events_reset (events t)\<rparr>)"

text \<open>\<^verbatim>\<open>restart\<close> reads the clock twice: in \<^verbatim>\<open>reset\<close>, then in \<^verbatim>\<open>start\<close>.\<close>

definition Tween_restart :: "int \<Rightarrow> int \<Rightarrow> Tween \<Rightarrow> Tween" where
  "Tween_restart now1 now2 t =
     (let t = Tween_reset now1 t;
          t = (if direction t = 1 then t\<lparr>tvalue := from_value (props t)\<rparr>
               else t\<lparr>tvalue := to_value (props t)\<rparr>)
      in Tween_start now2 t)"

definition Tween_pause :: "int \<Rightarrow> Tween \<Rightarrow> Tween" where
  "Tween_pause now t =
     (if \<not> is_paused t then t\<lparr>is_paused := True, paused_at := now\<rparr> else t)"

definition Tween_unpause :: "int \<Rightarrow> Tween \<Rightarrow> Tween" where
  "Tween_unpause now t =
     (if is_paused t
      then t\<lparr>is_paused := False, pause_duration := pause_duration t + (now - paused_at t),
             paused_at := 0\<rparr>
      else t)"

definition Tween_flip :: "Tween \<Rightarrow> Tween" where
  "Tween_flip t = t\<lparr>direction := direction t * (- 1)\<rparr>"

definition Tween_trigger :: "string \<Rightarrow> val \<Rightarrow> Tween \<Rightarrow> Tween" where
  "Tween_trigger event_name arg t = t\<lparr>events := Events_trigger event_name arg (events t)\<rparr>"

definition Tween_complete :: "Tween \<Rightarrow> Tween" where
  "Tween_complete t =
     (let t = Tween_trigger ''update'' (tvalue t) t;
          t = Tween_trigger ''complete'' (tvalue t) t;
          t = t\<lparr>is_completed := True\<rparr>
      in Tween_stop t)"

text \<open>
  \<^verbatim>\<open>done\<close>: the cycle has ended. \<open>handle_repeat\<close> is the part of the source below the
  comment \<^verbatim>\<open># Handle repeat\<close>, which the ping-pong part either returns before or falls
  through to. The two clock readings are those of the \<^verbatim>\<open>restart\<close> it may call.
\<close>

definition Tween_done :: "int \<Rightarrow> int \<Rightarrow> Tween \<Rightarrow> Tween" where
  "Tween_done now1 now2 t =
     (let handle_repeat = (\<lambda>t.
            let t = t\<lparr>count := count t + 1\<rparr> in
            if repeat (props t) = 0 then Tween_complete t
            else if repeat (props t) = - 1 then Tween_restart now1 now2 t
            else if count t < repeat (props t) then Tween_restart now1 now2 t
            else Tween_complete t);
          t = t\<lparr>tvalue := to_value (props t)\<rparr>
      in
        if pingpong (props t) \<noteq> 0 then
          if direction t = 1 then Tween_restart now1 now2 (Tween_flip t)
          else
            let t = t\<lparr>pingpong_n := pingpong_n t + 1\<rparr> in
            if pingpong_n t < pingpong (props t) \<or> pingpong (props t) = - 1
            then Tween_restart now1 now2 (Tween_flip t)
            else
              let t = t\<lparr>tvalue := from_value (props t)\<rparr>;
                  t = Tween_flip t;
                  t = t\<lparr>pingpong_n := 0\<rparr>
              in handle_repeat t
        else handle_repeat t)"

text \<open>
  \<^verbatim>\<open>update\<close> returns the new state of the tween together with what the call returns:
  the current value, or the exception that left the call. \<open>now\<close> is the reading of the
  clock taken by \<^verbatim>\<open>update\<close> itself, \<open>now1\<close> and \<open>now2\<close> are those of \<^verbatim>\<open>done\<close>. The
  division by the duration raises \<^verbatim>\<open>ZeroDivisionError\<close> before anything is assigned; an
  exception of the curve or of \<^verbatim>\<open>lerp\<close> leaves the call after \<^verbatim>\<open>self.time\<close> has been
  assigned.
\<close>

definition Tween_update :: "int \<Rightarrow> int \<Rightarrow> int \<Rightarrow> Tween \<Rightarrow> Tween \<times> (error + val)" where
  "Tween_update now now1 now2 t =
     (if is_paused t then (t, Inr (tvalue t))
      else if is_completed t then (t, Inr (tvalue t))
      else if \<not> is_running t then (t, Inr (tvalue t))
      else
        let ts = now;
            dt = real_of_int (ts - start_time t - pause_duration t) / 1000.0
        in
          if duration (props t) = 0 then (t, Inl ZeroDivisionError)
          else
            let t = t\<lparr>time := max 0 (min 1 (dt / duration (props t)))\<rparr>;
                tween_time = (if direction t = 1 then time t else 1 - time t)
            in
              case get_tween (easing (props t)) of
                Inl e \<Rightarrow> (t, Inl e)
              | Inr easing_func \<Rightarrow>
                  (case easing_func tween_time of
                     Inl e \<Rightarrow> (t, Inl e)
                   | Inr tween_value \<Rightarrow>
                       (case lerp (from_value (props t)) (to_value (props t)) tween_value of
                          Inl e \<Rightarrow> (t, Inl e)
                        | Inr v \<Rightarrow>
                            let t = t\<lparr>tvalue := v\<rparr>;
                                t = Tween_trigger ''update'' (tvalue t) t;
                                t = (if time t \<ge> 1 then Tween_done now1 now2 t else t)
                            in (t, Inr (tvalue t)))))"

text \<open>
  The constructor. \<open>now1\<close> is the reading of the clock in \<^verbatim>\<open>reset\<close>, \<open>now2\<close> the one
  in \<^verbatim>\<open>start\<close> when \<open>auto_start\<close> holds.
\<close>

definition Tween_init ::
  "val \<Rightarrow> val \<Rightarrow> real \<Rightarrow> string \<Rightarrow> int \<Rightarrow> callback option \<Rightarrow> callback option \<Rightarrow> bool \<Rightarrow> int \<Rightarrow>
   int \<Rightarrow> int \<Rightarrow> Tween" where
  "Tween_init from_v to_v dur ease rep update_callback complete_callback auto_start pp
     now1 now2 =
     (let ev = Events_init;
          ev = (if update_callback \<noteq> None then Events_on ''update'' update_callback ev else ev);
          ev = (if complete_callback \<noteq> None then Events_on ''complete'' complete_callback ev
                else ev);
          t = \<lparr>props = \<lparr>from_value = from_v, to_value = to_v, duration = dur, easing = ease,
                        repeat = rep, pingpong = pp\<rparr>,
               tvalue = from_v, events = ev, start_time = 0, time = 0, is_paused = False,
               pause_duration = 0, paused_at = 0, is_running = False, is_completed = False,
               direction = 0, pingpong_n = 0, count = 0\<rparr>;
          t = Tween_reset now1 t;
          t = t\<lparr>direction := 1, pingpong_n := 0, count := 0\<rparr>
      in if auto_start then Tween_start now2 t else t)"

section \<open>Collections and groups of tweens\<close>

text \<open>
  A \<^verbatim>\<open>Tweens\<close> collection and a \<^verbatim>\<open>TweenGroup\<close> hold references to tween objects
  that their callers hold too, so the objects live in a store, from addresses to
  tweens, and the two classes hold lists of addresses. (\<open>gtweens\<close> is the attribute
  \<^verbatim>\<open>tweens\<close> of a \<^verbatim>\<open>TweenGroup\<close>.)
\<close>

type_synonym ref = nat
type_synonym store = "ref \<Rightarrow> Tween"

record Tweens =
  tweens :: "ref list"

record TweenGroup =
  gtweens :: "ref list"

definition Tweens_init :: Tweens where
  "Tweens_init = \<lparr>tweens = []\<rparr>"

text \<open>
  \<^verbatim>\<open>Tweens.stop\<close>: while the list is not empty, pop its last element and stop that
  tween.
\<close>

function Tweens_stop :: "store \<times> Tweens \<Rightarrow> store \<times> Tweens" where
  "Tweens_stop (h, c) =
     (if length (tweens c) > 0 then
        let tween = last (tweens c);
            c = c\<lparr>tweens := butlast (tweens c)\<rparr>
        in Tweens_stop (h(tween := Tween_stop (h tween)), c)
      else (h, c))"
  by pat_completeness auto
termination
  by (relation "measure (\<lambda>(h, c). length (tweens c))") auto

declare Tweens_stop.simps [simp del]

definition Tweens_reset :: "store \<times> Tweens \<Rightarrow> store \<times> Tweens" where
  "Tweens_reset hc = Tweens_stop hc"

text \<open>
  \<^verbatim>\<open>Tweens.pause\<close> and \<^verbatim>\<open>Tweens.unpause\<close> walk the list; \<open>clock i\<close> is the reading
  of the clock in the \<open>i\<close>-th iteration.
\<close>

fun pause_each :: "(nat \<Rightarrow> int) \<Rightarrow> nat \<Rightarrow> ref list \<Rightarrow> store \<Rightarrow> store" where
  "pause_each clock i [] h = h"
| "pause_each clock i (tween # rest) h =
     pause_each clock (Suc i) rest (h(tween := Tween_pause (clock i) (h tween)))"

fun unpause_each :: "(nat \<Rightarrow> int) \<Rightarrow> nat \<Rightarrow> ref list \<Rightarrow> store \<Rightarrow> store" where
  "unpause_each clock i [] h = h"
| "unpause_each clock i (tween # rest) h =
     unpause_each clock (Suc i) rest (h(tween := Tween_unpause (clock i) (h tween)))"

definition Tweens_pause :: "(nat \<Rightarrow> int) \<Rightarrow> store \<times> Tweens \<Rightarrow> store \<times> Tweens" where
  "Tweens_pause clock hc = (case hc of (h, c) \<Rightarrow> (pause_each clock 0 (tweens c) h, c))"

definition Tweens_unpause :: "(nat \<Rightarrow> int) \<Rightarrow> store \<times> Tweens \<Rightarrow> store \<times> Tweens" where
  "Tweens_unpause clock hc = (case hc of (h, c) \<Rightarrow> (unpause_each clock 0 (tweens c) h, c))"

text \<open>
  \<^verbatim>\<open>TweenGroup.on\<close> creates the set \<^verbatim>\<open>tweens_fired\<close> and the closure
  \<^verbatim>\<open>on_tween_fire\<close>, and subscribes that one closure to the event on every tween of
  the group. The state of the closure is the record \<open>relay\<close>: the set, and the calls of
  the group's callback made so far, each with its argument. What the closure adds to the
  set is \<^verbatim>\<open>id(kwargs)\<close>, the identity of the tuple of arguments of the call; which
  number that is depends on where the interpreter has put the tuple, so each call of the
  closure takes it as an argument.
\<close>

record relay =
  tweens_fired :: "nat set"
  calls :: "val list"

definition relay_init :: relay where
  "relay_init = \<lparr>tweens_fired = {}, calls = []\<rparr>"

definition on_tween_fire :: "TweenGroup \<Rightarrow> nat \<Rightarrow> val \<Rightarrow> relay \<Rightarrow> relay" where
  "on_tween_fire g id_kwargs arg r =
     (let r = r\<lparr>tweens_fired := insert id_kwargs (tweens_fired r)\<rparr>
      in if card (tweens_fired r) = length (gtweens g) then r\<lparr>calls := calls r @ [arg]\<rparr>
         else r)"

fun subscribe_each :: "string \<Rightarrow> callback \<Rightarrow> ref list \<Rightarrow> store \<Rightarrow> store" where
  "subscribe_each event_name cb [] h = h"
| "subscribe_each event_name cb (tween # rest) h =
     subscribe_each event_name cb rest (h(tween := Tween_on event_name (Some cb) (h tween)))"

definition TweenGroup_on :: "string \<Rightarrow> callback \<Rightarrow> TweenGroup \<Rightarrow> store \<Rightarrow> store" where
  "TweenGroup_on event_name on_tween_fire_cb g h =
     subscribe_each event_name on_tween_fire_cb (gtweens g) h"

section \<open>Runs\<close>

text \<open>
  The public operations of a tween, each with the clock readings it takes, and a run of
  them from a state. An \<^verbatim>\<open>update\<close> that raises leaves the state it had reached.
\<close>

datatype op =
    Start int
  | Stop
  | Restart int int
  | Pause int
  | Unpause int
  | Flip
  | Update int int int

fun apply_op :: "op \<Rightarrow> Tween \<Rightarrow> Tween" where
  "apply_op (Start now) t = Tween_start now t"
| "apply_op Stop t = Tween_stop t"
| "apply_op (Restart now1 now2) t = Tween_restart now1 now2 t"
| "apply_op (Pause now) t = Tween_pause now t"
| "apply_op (Unpause now) t = Tween_unpause now t"
| "apply_op Flip t = Tween_flip t"
| "apply_op (Update now now1 now2) t = fst (Tween_update now now1 now2 t)"

fun run_ops :: "op list \<Rightarrow> Tween \<Rightarrow> Tween" where
  "run_ops [] t = t"
| "run_ops (x # xs) t = run_ops xs (apply_op x t)"

text \<open>A run in which \<^verbatim>\<open>start\<close> is never called on a completed tween.\<close>

fun start_guarded :: "op list \<Rightarrow> Tween \<Rightarrow> bool" where
  "start_guarded [] t = True"
| "start_guarded (Start now # xs) t =
     (\<not> is_completed t \<and> start_guarded xs (apply_op (Start now) t))"
| "start_guarded (x # xs) t = start_guarded xs (apply_op x t)"


fun is_Restart :: "op \<Rightarrow> bool" where
  "is_Restart (Restart _ _) = True"
| "is_Restart _ = False"


text \<open>
  A run of the relay of a group: each firing is the tween whose event called the relay,
  the identity of the argument tuple of that call, and the argument.
\<close>

fun relay_run :: "TweenGroup \<Rightarrow> (ref \<times> nat \<times> val) list \<Rightarrow> relay \<Rightarrow> relay" where
  "relay_run g [] r = r"
| "relay_run g ((tween, id_kwargs, arg) # fs) r = relay_run g fs (on_tween_fire g id_kwargs arg r)"

section \<open>Predicates of the properties\<close>



text \<open>
  A value whose floats, at any depth, are finite doubles: \<open>VFloat r\<close> is a value of
  Python when \<open>r\<close> is a double, that is, when rounding leaves it as it is.
\<close>

fun finite_floats :: "val \<Rightarrow> bool" and finite_floats_list :: "val list \<Rightarrow> bool" where
  "finite_floats (VFloat r) = (fl r = Some r)"
| "finite_floats VNonFinite = False"
| "finite_floats (VList xs) = finite_floats_list xs"
| "finite_floats (VTuple xs) = finite_floats_list xs"
| "finite_floats _ = True"
| "finite_floats_list [] = True"
| "finite_floats_list (x # xs) = (finite_floats x \<and> finite_floats_list xs)"

text \<open>A value with no string in it, at any depth.\<close>

fun str_free :: "val \<Rightarrow> bool" and str_frees :: "val list \<Rightarrow> bool" where
  "str_free (VStr _) = False"
| "str_free (VList xs) = str_frees xs"
| "str_free (VTuple xs) = str_frees xs"
| "str_free _ = True"
| "str_frees [] = True"
| "str_frees (x # xs) = (str_free x \<and> str_frees xs)"

text \<open>
  The string policy in the words of the specification, to compare the source with: the
  first \<open>N\<close> characters of the end string, where \<open>N\<close> is the end length minus the
  length difference scaled by the fraction.
\<close>

definition claimed_str_lerp :: "string \<Rightarrow> string \<Rightarrow> real \<Rightarrow> string" where
  "claimed_str_lerp a b x =
     take (nat (int (length b) - py_int (real_of_int (int (length b) - int (length a)) * x))) b"


text \<open>
  A tween from 0 to 100 over one second on the linear curve, with no listeners, running
  at the start of a leg: \<open>start\<close> is the clock reading of its start, \<open>cnt\<close> the
  counter of finished cycles, \<open>dir\<close> the direction, \<open>v\<close> the current value and
  \<open>hist\<close> the calls of \<^verbatim>\<open>trigger\<close> so far.
\<close>

definition example_tween ::
  "int \<Rightarrow> int \<Rightarrow> int \<Rightarrow> int \<Rightarrow> int \<Rightarrow> val \<Rightarrow> (string \<times> val \<times> callback list) list \<Rightarrow> Tween" where
  "example_tween rep pp start cnt dir v hist =
     \<lparr>props = \<lparr>from_value = VInt 0, to_value = VInt 100, duration = 1, easing = ''linear'',
                repeat = rep, pingpong = pp\<rparr>,
      tvalue = v, events = \<lparr>listeners = Map.empty, history = hist\<rparr>,
      start_time = start, time = 0, is_paused = False, pause_duration = 0, paused_at = 0,
      is_running = True, is_completed = False, direction = dir, pingpong_n = 0,
      count = cnt\<rparr>"

text \<open>
  The relay of a group in the words of the specification, to compare the source with:
  it tracks which tweens of the group have fired; once all of them have, the callback
  runs and the tracking set is emptied for the next occurrence. The state is the
  tracking set and the calls of the callback so far.
\<close>

fun claimed_relay_run ::
  "TweenGroup \<Rightarrow> (ref \<times> nat \<times> val) list \<Rightarrow> ref set \<times> val list \<Rightarrow> ref set \<times> val list" where
  "claimed_relay_run g [] st = st"
| "claimed_relay_run g ((tween, id_kwargs, arg) # fs) (seen, cs) =
     (if set (gtweens g) \<subseteq> insert tween seen
      then claimed_relay_run g fs ({}, cs @ [arg])
      else claimed_relay_run g fs (insert tween seen, cs))"

section \<open>Properties of the floating-point arithmetic\<close>

lemma round_even_of_int [simp]: "round_even (of_int n) = n"
  by (simp add: round_even_def)

lemma round_even_numeral [simp]: "round_even (numeral w) = numeral w"
  using round_even_of_int [of "numeral w"] by simp

lemma round_even_bounds: "\<lfloor>y\<rfloor> \<le> round_even y \<and> round_even y \<le> \<lfloor>y\<rfloor> + 1"
  by (simp add: round_even_def Let_def)

lemma fl_0 [simp]: "fl 0 = Some 0"
  by (simp add: fl_def)

text \<open>
  Rounding, for a number of which the binade is known: \<open>2\<^sup>e \<le> |x| < 2\<^sup>e\<^sup>+\<^sup>1\<close>.
\<close>

lemma fl_eval:
  assumes "2 powr (of_int e) \<le> \<bar>x\<bar>" and "\<bar>x\<bar> < 2 powr (of_int (e + 1))"
  shows "fl x =
     (let u = 2 powr (of_int (max e (- 1022) - 52));
          r = of_int (round_even (x / u)) * u
      in if 2 powr 1024 \<le> \<bar>r\<bar> then None else Some r)"
proof -
  have "0 < \<bar>x\<bar>"
    using assms(1) by (smt (verit) powr_gt_zero)
  then have "\<lfloor>log 2 \<bar>x\<bar>\<rfloor> = e"
    using assms by (simp add: floor_log_eq_powr_iff)
  moreover have "x \<noteq> 0"
    using \<open>0 < \<bar>x\<bar>\<close> by simp
  ultimately show ?thesis
    by (simp add: fl_def Let_def)
qed

lemma binade:
  assumes "x \<noteq> 0"
  shows "2 powr (of_int \<lfloor>log 2 \<bar>x\<bar>\<rfloor>) \<le> \<bar>x\<bar> \<and> \<bar>x\<bar> < 2 powr (of_int (\<lfloor>log 2 \<bar>x\<bar>\<rfloor> + 1))"
  using assms floor_log_eq_powr_iff [of "\<bar>x\<bar>" 2 "\<lfloor>log 2 \<bar>x\<bar>\<rfloor>"] by simp

text \<open>Every integer up to \<open>2\<^sup>5\<^sup>3\<close> in size is a double.\<close>

lemma fl_int:
  assumes "\<bar>k\<bar> \<le> 2 ^ 53"
  shows "fl (of_int k) = Some (of_int k)"
proof (cases "k = 0")
  case True
  then show ?thesis by simp
next
  case False
  define e where "e = \<lfloor>log 2 \<bar>real_of_int k\<bar>\<rfloor>"
  have b: "2 powr (of_int e) \<le> \<bar>real_of_int k\<bar>" "\<bar>real_of_int k\<bar> < 2 powr (of_int (e + 1))"
    using binade [of "real_of_int k"] False by (simp_all add: e_def)
  have "1 \<le> \<bar>real_of_int k\<bar>"
    using False by (simp add: abs_if)
  then have "(2::real) powr 0 < 2 powr (of_int (e + 1))"
    using b(2) by simp
  then have e0: "0 \<le> e"
    by (simp del: powr_zero_eq_one)
  have "\<bar>real_of_int k\<bar> \<le> 2 powr 53"
    using assms by (simp add: powr_numeral)
  then have "(2::real) powr (of_int e) \<le> 2 powr 53"
    using b(1) by linarith
  moreover have "(2::real) powr (of_int e) \<le> 2 powr 53 \<longleftrightarrow> real_of_int e \<le> 53"
    by (rule powr_le_cancel_iff) simp
  ultimately have "real_of_int e \<le> 53"
    by blast
  then have e53: "e \<le> 53"
    by simp
  have fin: "\<not> 2 powr 1024 \<le> \<bar>real_of_int k\<bar>"
  proof -
    have "(2::real) powr 53 < 2 powr 1024"
      by (simp del: powr_numeral)
    with \<open>\<bar>real_of_int k\<bar> \<le> 2 powr 53\<close> show ?thesis
      by linarith
  qed
  have "real_of_int (round_even (of_int k / 2 powr (of_int (e - 52)))) * 2 powr (of_int (e - 52))
      = of_int k"
  proof (cases "e \<le> 52")
    case True
    define n where "n = nat (52 - e)"
    have "real_of_int (e - 52) = - real n"
      using True by (simp add: n_def)
    then have u: "(2::real) powr (of_int (e - 52)) = 1 / 2 ^ n"
      by (simp add: powr_minus powr_realpow inverse_eq_divide)
    have "of_int k / (1 / 2 ^ n) = real_of_int (k * 2 ^ n)"
      by simp
    then show ?thesis
      by (simp only: u round_even_of_int) simp
  next
    case False
    with e53 have e: "e = 53"
      by simp
    have "2 powr 53 \<le> \<bar>real_of_int k\<bar>"
      using b(1) by (simp add: e)
    with \<open>\<bar>real_of_int k\<bar> \<le> 2 powr 53\<close> have "\<bar>real_of_int k\<bar> = 2 ^ 53"
      by (simp add: powr_numeral)
    then have "\<bar>k\<bar> = 2 ^ 53"
      by (metis of_int_abs of_int_eq_iff of_int_numeral of_int_power)
    then have "\<bar>k\<bar> = 9007199254740992"
      by simp
    then have "k = 2 * (k div 2)"
      by presburger
    then have h: "real_of_int k / 2 = real_of_int (k div 2)"
      by (metis nonzero_mult_div_cancel_left of_int_mult of_int_numeral zero_neq_numeral)
    have "real_of_int (round_even (real_of_int k / 2)) * 2 = real_of_int k"
      by (simp only: h round_even_of_int) (use h in linarith)
    then show ?thesis
      by (simp add: e)
  qed
  moreover have "max e (- 1022) = e"
    using e0 by simp
  ultimately show ?thesis
    using fl_eval [OF b] fin by (simp add: Let_def)
qed

lemma fl_numeral [simp]: "numeral w \<le> (2 ^ 53 :: int) \<Longrightarrow> fl (numeral w) = Some (numeral w)"
  using fl_int [of "numeral w"] by simp

lemma fl_neg_numeral [simp]:
  "numeral w \<le> (2 ^ 53 :: int) \<Longrightarrow> fl (- numeral w) = Some (- numeral w)"
  using fl_int [of "- numeral w"] by simp

lemma fl_1 [simp]: "fl 1 = Some 1"
  using fl_int [of 1] by simp

lemma round_even_abs_le:
  assumes "\<bar>z\<bar> < 2 ^ 53"
  shows "\<bar>real_of_int (round_even z)\<bar> \<le> 2 ^ 53"
proof -
  have "real_of_int (- (2 ^ 53)) \<le> z"
    using assms by simp
  then have lo: "- (2 ^ 53) \<le> \<lfloor>z\<rfloor>"
    by (simp only: le_floor_iff)
  have "z < real_of_int (2 ^ 53)"
    using assms by simp
  then have hi: "\<lfloor>z\<rfloor> < 2 ^ 53"
    by (simp only: floor_less_iff)
  have "\<bar>round_even z\<bar> \<le> 2 ^ 53"
    using lo hi round_even_bounds [of z] by linarith
  then have "real_of_int \<bar>round_even z\<bar> \<le> real_of_int (2 ^ 53)"
    by (simp only: of_int_le_iff)
  then show ?thesis
    by simp
qed

text \<open>A number below \<open>2\<^sup>1\<^sup>0\<^sup>2\<^sup>3\<close> in size rounds to a finite double.\<close>

lemma fl_finite:
  assumes "\<bar>y\<bar> < 2 powr 1023"
  shows "\<exists>r. fl y = Some r"
proof (cases "y = 0")
  case True
  then show ?thesis by simp
next
  case False
  define e where "e = \<lfloor>log 2 \<bar>y\<bar>\<rfloor>"
  define e' where "e' = max e (- 1022)"
  define u :: real where "u = 2 powr (of_int (e' - 52))"
  define r where "r = real_of_int (round_even (y / u)) * u"
  have b: "2 powr (of_int e) \<le> \<bar>y\<bar>" "\<bar>y\<bar> < 2 powr (of_int (e + 1))"
    using binade [of y] False by (simp_all add: e_def)
  have "(2::real) powr (of_int e) < 2 powr 1023"
    using b(1) assms by linarith
  moreover have "(2::real) powr (of_int e) < 2 powr 1023 \<longleftrightarrow> real_of_int e < 1023"
    by (rule powr_less_cancel_iff) simp
  ultimately have "real_of_int e < 1023"
    by blast
  then have e': "e \<le> e'" "e' \<le> 1022"
    by (simp_all add: e'_def)
  have u0: "0 < u"
    by (simp add: u_def)
  have split: "(2::real) powr (of_int (e' + 1)) = 2 ^ 53 * u"
  proof -
    have "real_of_int (e' + 1) = 53 + real_of_int (e' - 52)"
      by simp
    then have "(2::real) powr (of_int (e' + 1)) = 2 powr 53 * 2 powr (of_int (e' - 52))"
      by (simp only: powr_add)
    then show ?thesis
      by (simp add: u_def)
  qed
  have "(2::real) powr (of_int (e + 1)) \<le> 2 powr (of_int (e' + 1))"
    using e'(1) by (intro powr_mono) simp_all
  with b(2) have "\<bar>y\<bar> < 2 ^ 53 * u"
    by (simp only: split)
  then have "\<bar>y / u\<bar> < 2 ^ 53"
    using u0 by (simp add: field_simps)
  then have "\<bar>real_of_int (round_even (y / u))\<bar> \<le> 2 ^ 53"
    by (rule round_even_abs_le)
  then have "\<bar>r\<bar> \<le> 2 ^ 53 * u"
    using u0 by (simp add: r_def abs_mult)
  also have "\<dots> = 2 powr (of_int (e' + 1))"
    by (simp only: split)
  also have "\<dots> \<le> 2 powr (of_int (1022 + 1))"
    using e'(2) by (intro powr_mono) simp_all
  also have "\<dots> < 2 powr 1024"
    by (simp del: powr_numeral)
  finally have "\<not> 2 powr 1024 \<le> \<bar>r\<bar>"
    by simp
  then have "fl y = Some r"
    using False by (simp add: fl_def Let_def e_def e'_def u_def r_def)
  then show ?thesis
    by blast
qed


lemma fl_half [simp]: "fl (1 / 2) = Some (1 / 2)"
  by (subst fl_eval [where e = "- 1"]) (simp_all add: powr_minus powr_numeral Let_def)

lemma fl_three_halves [simp]: "fl (3 / 2) = Some (3 / 2)"
  by (subst fl_eval [where e = 0]) (simp_all add: powr_minus powr_numeral Let_def)




section \<open>Properties of the interpolator\<close>

lemma py_int_0 [simp]: "py_int 0 = 0"
  by (simp add: py_int_def)

lemma py_int_of_int [simp]: "py_int (real_of_int k) = k"
  by (simp add: py_int_def)

lemma py_int_numeral [simp]: "py_int (numeral n) = numeral n"
  using py_int_of_int [of "numeral n"] by simp

lemma py_int_1 [simp]: "py_int 1 = 1"
  using py_int_of_int [of 1] by simp

lemma fmul_zero_left [simp]: "fmul (Some 0) (Some x) = Some 0"
  by (simp add: fmul_def)

lemma fmul_zero_right [simp]: "fmul (Some d) (Some 0) = Some 0"
  by (simp add: fmul_def)

lemma fmul_one: "fl d = Some d \<Longrightarrow> fmul (Some d) (Some 1) = Some d"
  by (simp add: fmul_def)

lemma int_scaled_zero [simp]: "int_scaled 0 x = Inr 0"
  by (simp add: int_scaled_def int_to_float_def float_to_int_def)

lemma int_scaled_at_0:
  "fl (real_of_int d) = Some (real_of_int d) \<Longrightarrow> int_scaled d 0 = Inr 0"
  by (simp add: int_scaled_def int_to_float_def float_to_int_def)

lemma int_scaled_at_1:
  "fl (real_of_int d) = Some (real_of_int d) \<Longrightarrow> int_scaled d 1 = Inr d"
  by (simp add: int_scaled_def int_to_float_def float_to_int_def fmul_def)






lemma lerp_same:
  "str_free a \<Longrightarrow> finite_floats a \<Longrightarrow> lerp a a x = Inr a"
  "str_frees xs \<Longrightarrow> finite_floats_list xs \<Longrightarrow> lerp_zip xs xs x = Inr xs"
  by (induction a and xs rule: str_free_str_frees.induct)
    (simp_all add: lerp_float_def fsub_def fadd_def float_val_def)

subsection \<open>The endpoints\<close>










subsection \<open>Equal ends\<close>

text \<open>
  Claim C6 as stated fails on strings: \<^verbatim>\<open>lerp("abc", "abc", 0.5)\<close> is the empty
  string, since the length difference is zero and the slice \<^verbatim>\<open>b[:0]\<close> is empty.
\<close>

theorem lerp_same_str_counterexample:
  "lerp (VStr ''abc'') (VStr ''abc'') (1 / 2) = Inr (VStr [])
   \<and> lerp (VStr ''abc'') (VStr ''abc'') (1 / 2) \<noteq> Inr (VStr ''abc'')"
  by (simp add: slice_to_def)

text \<open>
  Claim C6, amended. For every value \<open>a\<close> that holds no string and no infinity or NaN
  (an integer, a finite float, \<^verbatim>\<open>None\<close>, or a list or tuple of such values, nested to
  any depth) and every fraction \<open>x\<close>, \<^verbatim>\<open>lerp(a, a, x)\<close> returns \<open>a\<close>; for a string
  \<open>s\<close>, \<^verbatim>\<open>lerp(s, s, x)\<close> is the empty string.
\<close>

theorem lerp_same_value:
  "(str_free a \<and> finite_floats a \<longrightarrow> lerp a a x = Inr a)
   \<and> lerp (VStr s) (VStr s) x = Inr (VStr [])"
  by (simp add: lerp_same slice_to_def)

text \<open>
  A tuple without strings interpolates to itself, a string to the empty string.
\<close>

theorem lerp_same_value_witness:
  "str_free (VTuple [VInt 4, VFloat (1 / 2), VList [VNone]])
   \<and> finite_floats (VTuple [VInt 4, VFloat (1 / 2), VList [VNone]])
   \<and> lerp (VTuple [VInt 4, VFloat (1 / 2), VList [VNone]])
        (VTuple [VInt 4, VFloat (1 / 2), VList [VNone]]) (1 / 4)
       = Inr (VTuple [VInt 4, VFloat (1 / 2), VList [VNone]])
   \<and> lerp (VStr ''abc'') (VStr ''abc'') (1 / 4) = Inr (VStr [])"
  using lerp_same_value [of "VTuple [VInt 4, VFloat (1 / 2), VList [VNone]]" "1 / 4" "''abc''"]
  by simp

subsection \<open>Strings\<close>

text \<open>
  Claim C4 as stated fails: from the empty string to \<^verbatim>\<open>"abc"\<close> the source returns
  \<^verbatim>\<open>"abc"\<close> at fraction 1 and the empty string at fraction 0, where the length
  \<open>N\<close> of the claim (end length minus scaled difference) gives the opposite.
\<close>

theorem lerp_str_counterexample:
  "lerp (VStr []) (VStr ''abc'') 1 = Inr (VStr ''abc'')
   \<and> claimed_str_lerp [] ''abc'' 1 = []
   \<and> lerp (VStr []) (VStr ''abc'') 0 = Inr (VStr [])
   \<and> claimed_str_lerp [] ''abc'' 0 = ''abc''"
  by (simp add: slice_to_def claimed_str_lerp_def int_scaled_at_0 int_scaled_at_1)

text \<open>
  \<^verbatim>\<open>int(d * x)\<close> returns for an integer \<open>d\<close> up to \<open>2\<^sup>5\<^sup>3\<close> in size and a product
  within the range of the doubles: it is the rounded product, truncated.
\<close>

lemma int_scaled_total:
  assumes "\<bar>d\<bar> \<le> 2 ^ 53" and "\<bar>real_of_int d * x\<bar> < 2 powr 1023"
  shows "\<exists>p. fl (real_of_int d * x) = Some p \<and> int_scaled d x = Inr (py_int p)"
proof -
  obtain p where "fl (real_of_int d * x) = Some p"
    using fl_finite [OF assms(2)] by blast
  then show ?thesis
    using fl_int [OF assms(1)]
    by (simp add: int_scaled_def int_to_float_def fmul_def float_to_int_def)
qed

lemma lerp_str_cases:
  "case int_scaled (int (length b) - int (length a)) x of
     Inl e \<Rightarrow> lerp (VStr a) (VStr b) x = Inl e
   | Inr n \<Rightarrow> \<exists>r. lerp (VStr a) (VStr b) x = Inr (VStr r) \<and> r = take (length r) b \<and>
       int (length r) = (if 0 \<le> n then min n (int (length b)) else max 0 (int (length b) + n))"
  by (auto simp: slice_to_def min_def max_def split: sum.splits)

text \<open>
  Claim C4, amended. For strings \<open>a\<close>, \<open>b\<close> and every fraction \<open>x\<close>,
  \<^verbatim>\<open>lerp(a, b, x)\<close> is decided by \<open>n = int((len(b) - len(a)) * x)\<close>, the length
  difference scaled by \<open>x\<close> (a float product, rounded) and truncated toward zero: when
  that raises, so does \<^verbatim>\<open>lerp\<close>; otherwise \<^verbatim>\<open>lerp\<close> returns a prefix of the end string
  \<open>b\<close>, which for \<open>n \<ge> 0\<close> has \<open>min(n, len(b))\<close> characters and for \<open>n < 0\<close> is
  \<open>b\<close> without its last \<open>-n\<close> characters, that is \<open>max(0, len(b) + n)\<close> characters.
  It does not raise when the length difference is at most \<open>2\<^sup>5\<^sup>3\<close> in size and the
  product is below \<open>2\<^sup>1\<^sup>0\<^sup>2\<^sup>3\<close> in size, as for every fraction from 0 to 1.
\<close>

theorem lerp_str_slice:
  fixes a b :: string and x :: real
  defines "d \<equiv> int (length b) - int (length a)"
  shows "(case int_scaled d x of
            Inl e \<Rightarrow> lerp (VStr a) (VStr b) x = Inl e
          | Inr n \<Rightarrow> \<exists>r. lerp (VStr a) (VStr b) x = Inr (VStr r) \<and> r = take (length r) b \<and>
              int (length r) =
                (if 0 \<le> n then min n (int (length b)) else max 0 (int (length b) + n)))
         \<and> (\<bar>d\<bar> \<le> 2 ^ 53 \<and> \<bar>real_of_int d * x\<bar> < 2 powr 1023 \<longrightarrow>
              (\<exists>p. fl (real_of_int d * x) = Some p \<and> int_scaled d x = Inr (py_int p)))"
  unfolding d_def using lerp_str_cases [of a b x] int_scaled_total by blast

text \<open>
  From \<^verbatim>\<open>"ab"\<close> to \<^verbatim>\<open>"hello"\<close> at one half: \<open>n = int(1.5) = 1\<close>, the result is
  \<^verbatim>\<open>"h"\<close>.
\<close>

theorem lerp_str_slice_witness:
  "\<bar>int (length ''hello'') - int (length ''ab'')\<bar> \<le> 2 ^ 53
   \<and> \<bar>real_of_int (int (length ''hello'') - int (length ''ab'')) * (1 / 2)\<bar> < 2 powr 1023
   \<and> int_scaled (int (length ''hello'') - int (length ''ab'')) (1 / 2) = Inr 1
   \<and> lerp (VStr ''ab'') (VStr ''hello'') (1 / 2) = Inr (VStr ''h'')"
  using lerp_str_slice [of "''ab''" "''hello''" "1 / 2"]
  by (simp add: slice_to_def py_int_def int_scaled_def int_to_float_def fmul_def float_to_int_def)

text \<open>
  The product is rounded before it is truncated. The float literal \<^verbatim>\<open>0.7\<close> is the
  double \<open>3152519739159347 / 2\<^sup>5\<^sup>2\<close>, just below seven tenths; ten times it is halfway
  between two doubles and rounds to 7, so \<^verbatim>\<open>lerp("", "abcdefghij", 0.7)\<close> has seven
  characters, where the product of the real numbers would be truncated to 6.
\<close>

lemma ten_times_0_7: "fl (10 * (3152519739159347 / 2 ^ 52)) = Some 7"
  by (subst fl_eval [where e = 2]) (simp_all add: powr_minus powr_numeral Let_def round_even_def)

lemma lerp_str_rounds:
  "lerp (VStr []) (VStr ''abcdefghij'') (3152519739159347 / 2 ^ 52) = Inr (VStr ''abcdefg'')
   \<and> py_int (10 * (3152519739159347 / 2 ^ 52)) = 6"
proof -
  have "int_to_float 10 = Inr (Some 10)"
    by (simp add: int_to_float_def)
  then have "int_scaled 10 (3152519739159347 / 2 ^ 52) = Inr 7"
    by (simp only: int_scaled_def fmul_def float_to_int_def sum.case option.case
        ten_times_0_7 py_int_numeral)
  then show ?thesis
    by (simp add: slice_to_def py_int_def)
qed

section \<open>Properties of the easing library\<close>

lemma lookup_distinct: "distinct (map fst tween_functions_lookup)"
  by (simp add: tween_functions_lookup_def)

lemma lookup_linear:
  "map_of tween_functions_lookup ''linear'' = Some (normalize_easing linear_ease)"
  by (simp add: tween_functions_lookup_def)

lemma get_tween_linear [simp]: "get_tween ''linear'' = Inr (normalize_easing linear_ease)"
  by (simp add: get_tween_def dict_get_def tween_functions_lookup_def)

lemma linear_norm [simp]: "normalize_easing linear_ease x = Inr x"
  by (simp add: normalize_easing_def linear_ease_def)

text \<open>
  Claim C9. \<^verbatim>\<open>get_tween(name)\<close> never raises: for a name of the dictionary it returns
  the curve registered under that name, for every other name it returns the linear curve.
\<close>

theorem get_tween_resolves:
  "(\<forall>f. (name, f) \<in> set tween_functions_lookup \<longrightarrow> get_tween name = Inr f) \<and>
   (name \<notin> fst ` set tween_functions_lookup \<longrightarrow> get_tween name = Inr (normalize_easing linear_ease))"
proof (intro conjI allI impI)
  fix f
  assume m: "(name, f) \<in> set tween_functions_lookup"
  then have "map_of tween_functions_lookup name = Some f"
    using lookup_distinct by (rule_tac map_of_is_SomeI)
  moreover from m have "name \<in> fst ` set tween_functions_lookup"
    by force
  ultimately show "get_tween name = Inr f"
    by (simp add: get_tween_def dict_get_def)
next
  assume "name \<notin> fst ` set tween_functions_lookup"
  then show "get_tween name = Inr (normalize_easing linear_ease)"
    using lookup_linear by (simp add: get_tween_def dict_get_def)
qed

text \<open>
  A registered name, and two names that are not registered.
\<close>

theorem get_tween_resolves_witness:
  "get_tween ''easeOutQuad'' = Inr (normalize_easing ease_out_quad)
   \<and> get_tween ''easeInBounce'' = Inr (normalize_easing linear_ease)
   \<and> get_tween [] = Inr (normalize_easing linear_ease)"
  using get_tween_resolves [of "''easeOutQuad''"] get_tween_resolves [of "''easeInBounce''"]
    get_tween_resolves [of "[]"]
  by (simp add: tween_functions_lookup_def)

text \<open>
  Every other curve of the dictionary, the elastic ones by their special cases, is 0 at
  0 and 1 at 1.
\<close>

lemma easing_boundaries_but_expo:
  "\<forall>(n, f) \<in> set tween_functions_lookup.
     n \<notin> {''easeInExpo'', ''easeOutExpo'', ''easeInOutExpo''} \<longrightarrow> f 0 = Inr 0 \<and> f 1 = Inr 1"
  by (simp add: tween_functions_lookup_def normalize_easing_def linear_ease_def
      ease_in_quad_def ease_out_quad_def ease_in_out_quad_def
      ease_in_cubic_def ease_out_cubic_def ease_in_out_cubic_def
      ease_in_quart_def ease_out_quart_def ease_in_out_quart_def
      ease_in_quint_def ease_out_quint_def ease_in_out_quint_def
      ease_in_sine_def ease_out_sine_def ease_in_out_sine_def
      ease_in_circ_def ease_out_circ_def ease_in_out_circ_def
      ease_in_elastic_def ease_out_elastic_def ease_in_out_elastic_def)

text \<open>
  Claim C3 fails on the three exponential curves, which have no case for the
  boundaries as the elastic curves have: in normalised form \<^verbatim>\<open>easeInExpo\<close> is
  \<open>2\<^sup>-\<^sup>1\<^sup>0\<close> at 0, \<^verbatim>\<open>easeOutExpo\<close> is \<open>1 - 2\<^sup>-\<^sup>1\<^sup>0\<close> at 1, and \<^verbatim>\<open>easeInOutExpo\<close>
  is \<open>2\<^sup>-\<^sup>1\<^sup>1\<close> at 0 and \<open>1 - 2\<^sup>-\<^sup>1\<^sup>1\<close> at 1. These numbers are powers of two and
  sums of few of them, so floating-point arithmetic computes them without rounding.
\<close>

theorem expo_boundaries:
  "normalize_easing ease_in_expo 0 = Inr (1 / 1024)
   \<and> normalize_easing ease_out_expo 1 = Inr (1023 / 1024)
   \<and> normalize_easing ease_in_out_expo 0 = Inr (1 / 2048)
   \<and> normalize_easing ease_in_out_expo 1 = Inr (2047 / 2048)
   \<and> get_tween ''easeInExpo'' = Inr (normalize_easing ease_in_expo)
   \<and> get_tween ''easeOutExpo'' = Inr (normalize_easing ease_out_expo)
   \<and> get_tween ''easeInOutExpo'' = Inr (normalize_easing ease_in_out_expo)"
  by (simp add: normalize_easing_def ease_in_expo_def ease_out_expo_def ease_in_out_expo_def
      powr_minus get_tween_def dict_get_def tween_functions_lookup_def)

section \<open>Properties of the tween state machine\<close>

lemmas tween_defs = Tween_done_def Tween_complete_def Tween_restart_def Tween_reset_def
  Tween_start_def Tween_stop_def Tween_flip_def Tween_trigger_def Events_trigger_def
  Events_reset_def Tween_pause_def Tween_unpause_def

lemmas init_defs = Tween_init_def Events_init_def Events_on_def


text \<open>
  What one call of \<^verbatim>\<open>update\<close> can do to the state: nothing; assign \<^verbatim>\<open>self.time\<close> and
  raise; assign time and value and trigger \<^verbatim>\<open>"update"\<close>; or do that and end the cycle.
\<close>

lemma update_cases:
  assumes "Q t"
    and "\<And>tm. \<not> is_paused t \<Longrightarrow> \<not> is_completed t \<Longrightarrow> is_running t \<Longrightarrow> Q (t\<lparr>time := tm\<rparr>)"
    and "\<And>tm v. \<not> is_paused t \<Longrightarrow> \<not> is_completed t \<Longrightarrow> is_running t \<Longrightarrow>
           Q (Tween_trigger ''update'' v (t\<lparr>time := tm, tvalue := v\<rparr>))"
    and "\<And>tm v. \<not> is_paused t \<Longrightarrow> \<not> is_completed t \<Longrightarrow> is_running t \<Longrightarrow>
           Q (Tween_done a b (Tween_trigger ''update'' v (t\<lparr>time := tm, tvalue := v\<rparr>)))"
  shows "Q (fst (Tween_update n a b t))"
  unfolding Tween_update_def
  using assms by (simp add: Let_def split: sum.splits)

subsection \<open>The example tween, step by step\<close>

lemma example_init:
  "Tween_init (VInt 0) (VInt 100) 1 ''linear'' rep None None True pp now1 now2 =
     example_tween rep pp now2 0 1 (VInt 0) []"
  by (simp add: init_defs Let_def Tween_reset_def Tween_start_def example_tween_def)

lemma example_start:
  "Tween_start now (example_tween rep pp start cnt dir v hist) =
     example_tween rep pp now cnt dir v hist"
  by (simp add: example_tween_def Tween_start_def)

lemma example_update:
  assumes "1000 \<le> now - start" and "dir = 1 \<or> dir = - 1"
  shows "fst (Tween_update now a b (example_tween rep pp start cnt dir v hist)) =
     Tween_done a b ((example_tween rep pp start cnt dir v hist)
       \<lparr>time := 1, tvalue := (if dir = 1 then VInt 100 else VInt 0),
        events := \<lparr>listeners = Map.empty,
          history = hist @ [(''update'', if dir = 1 then VInt 100 else VInt 0, [])]\<rparr>\<rparr>)"
proof -
  have "max 0 (min 1 (real_of_int (now - start) / 1000)) = 1"
    using assms(1) by (simp add: min_def max_def)
  then show ?thesis
    using assms(2)
    by (auto simp add: Tween_update_def Let_def Tween_trigger_def Events_trigger_def
        example_tween_def int_scaled_at_0 int_scaled_at_1)
qed


lemma example_completes:
  assumes "1000 \<le> now - start" and "rep = 0 \<or> (rep \<noteq> - 1 \<and> \<not> cnt + 1 < rep)"
  shows "fst (Tween_update now a b (example_tween rep 0 start cnt 1 v hist)) =
     (example_tween rep 0 start (cnt + 1) 1 (VInt 100)
        (hist @ [(''update'', VInt 100, []), (''update'', VInt 100, []),
                 (''complete'', VInt 100, [])]))
     \<lparr>time := 1, is_running := False, is_completed := True\<rparr>"
  using assms(2)
  by (subst example_update [OF assms(1)])
    (auto simp add: tween_defs Let_def example_tween_def)

lemma example_turns:
  assumes "1000 \<le> now - start" and "pp \<noteq> 0"
  shows "fst (Tween_update now a b (example_tween rep pp start cnt 1 v hist)) =
     example_tween rep pp b cnt (- 1) (VInt 100) (hist @ [(''update'', VInt 100, [])])"
  using assms(2)
  by (subst example_update [OF assms(1)])
    (auto simp add: tween_defs Let_def example_tween_def)

lemma example_halfway_back:
  "fst (Tween_update (start + 500) a b (example_tween rep pp start cnt (- 1) v hist)) =
     (example_tween rep pp start cnt (- 1) (VInt 50) (hist @ [(''update'', VInt 50, [])]))
     \<lparr>time := 1 / 2\<rparr>"
  by (simp add: Tween_update_def Let_def Tween_trigger_def Events_trigger_def
        example_tween_def int_scaled_def int_to_float_def fmul_def float_to_int_def)

subsection \<open>Repeats\<close>










subsection \<open>Completed and running\<close>

lemma done_stopped_if_completed:
  "is_completed (Tween_done a b s) \<longrightarrow> \<not> is_running (Tween_done a b s)"
  by (simp add: tween_defs Let_def)

lemma update_stopped_if_completed:
  assumes "is_completed t \<longrightarrow> \<not> is_running t"
  shows "is_completed (fst (Tween_update n a b t)) \<longrightarrow> \<not> is_running (fst (Tween_update n a b t))"
proof (rule update_cases [where Q = "\<lambda>s. is_completed s \<longrightarrow> \<not> is_running s"])
  show "is_completed t \<longrightarrow> \<not> is_running t"
    by (rule assms)
next
  fix tm
  assume "\<not> is_completed t"
  then show "is_completed (t\<lparr>time := tm\<rparr>) \<longrightarrow> \<not> is_running (t\<lparr>time := tm\<rparr>)"
    by simp
next
  fix tm v
  assume "\<not> is_completed t"
  then show "is_completed (Tween_trigger ''update'' v (t\<lparr>time := tm, tvalue := v\<rparr>)) \<longrightarrow>
      \<not> is_running (Tween_trigger ''update'' v (t\<lparr>time := tm, tvalue := v\<rparr>))"
    by (simp add: Tween_trigger_def)
next
  fix tm v
  show "is_completed (Tween_done a b (Tween_trigger ''update'' v (t\<lparr>time := tm, tvalue := v\<rparr>))) \<longrightarrow>
      \<not> is_running (Tween_done a b (Tween_trigger ''update'' v (t\<lparr>time := tm, tvalue := v\<rparr>)))"
    by (rule done_stopped_if_completed)
qed

lemma op_stopped_if_completed:
  assumes "is_completed t \<longrightarrow> \<not> is_running t"
    and "\<forall>now. x = Start now \<longrightarrow> \<not> is_completed t"
  shows "is_completed (apply_op x t) \<longrightarrow> \<not> is_running (apply_op x t)"
proof (cases x)
  case (Update n a b)
  then show ?thesis
    using update_stopped_if_completed [OF assms(1)] by simp
qed (use assms in \<open>simp_all add: tween_defs Let_def\<close>)

lemma run_stopped_if_completed:
  "start_guarded ops t \<Longrightarrow> is_completed t \<longrightarrow> \<not> is_running t \<Longrightarrow>
   is_completed (run_ops ops t) \<longrightarrow> \<not> is_running (run_ops ops t)"
proof (induction ops arbitrary: t)
  case Nil
  then show ?case by simp
next
  case (Cons x xs)
  have guard: "\<forall>now. x = Start now \<longrightarrow> \<not> is_completed t"
    using Cons.prems(1) by (cases x) simp_all
  have rest: "start_guarded xs (apply_op x t)"
    using Cons.prems(1) by (cases x) simp_all
  have "is_completed (apply_op x t) \<longrightarrow> \<not> is_running (apply_op x t)"
    using Cons.prems(2) guard by (rule op_stopped_if_completed)
  with rest show ?case
    using Cons.IH [of "apply_op x t"] by simp
qed

lemma init_not_completed:
  "\<not> is_completed (Tween_init fv tv d e rep ucb ccb auto pp now1 now2)"
  by (simp add: init_defs Let_def Tween_reset_def Tween_start_def)

lemma update_keeps_completed:
  "is_completed t \<Longrightarrow> is_completed (fst (Tween_update n a b t))"
  by (simp add: Tween_update_def)

lemma op_keeps_completed:
  "is_completed t \<Longrightarrow> \<not> is_Restart x \<Longrightarrow> is_completed (apply_op x t)"
  by (cases x) (simp_all add: tween_defs Let_def update_keeps_completed)

lemma restart_not_completed: "\<not> is_completed (Tween_restart now1 now2 t)"
  by (simp add: tween_defs Let_def)

lemma start_runs:
  "is_running (Tween_start now t) \<and> is_completed (Tween_start now t) = is_completed t"
  by (simp add: Tween_start_def)

text \<open>
  Claim C5 as stated fails: \<^verbatim>\<open>start()\<close> sets the running flag whatever the state, so
  calling it on a tween that has completed gives a state that is completed and running.
\<close>

theorem start_after_complete_counterexample:
  "is_completed (run_ops [Update 1000 0 0, Start 1001]
      (Tween_init (VInt 0) (VInt 100) 1 ''linear'' 0 None None True 0 0 0))
   \<and> is_running (run_ops [Update 1000 0 0, Start 1001]
      (Tween_init (VInt 0) (VInt 100) 1 ''linear'' 0 None None True 0 0 0))"
  by (simp add: example_init example_completes)
    (simp add: example_tween_def Tween_start_def)

text \<open>
  Claim C5, amended. In every state reachable from construction through a sequence of
  \<^verbatim>\<open>start\<close>, \<^verbatim>\<open>stop\<close>, \<^verbatim>\<open>restart\<close>, \<^verbatim>\<open>pause\<close>, \<^verbatim>\<open>unpause\<close>, \<^verbatim>\<open>flip\<close> and
  \<^verbatim>\<open>update\<close> in which \<^verbatim>\<open>start\<close> is not called on a completed tween, a completed tween
  is not running. \<^verbatim>\<open>start\<close> sets the running flag and leaves the completed flag as it
  is. None of the operations but \<^verbatim>\<open>restart\<close> leaves the completed state, and
  \<^verbatim>\<open>restart\<close> does.
\<close>

theorem completed_implies_stopped:
  "(start_guarded ops (Tween_init fv tv d e rep ucb ccb auto pp now1 now2) \<longrightarrow>
      is_completed (run_ops ops (Tween_init fv tv d e rep ucb ccb auto pp now1 now2)) \<longrightarrow>
      \<not> is_running (run_ops ops (Tween_init fv tv d e rep ucb ccb auto pp now1 now2)))
   \<and> (is_running (Tween_start now t) \<and> is_completed (Tween_start now t) = is_completed t)
   \<and> (is_completed t \<and> \<not> is_Restart x \<longrightarrow> is_completed (apply_op x t))
   \<and> \<not> is_completed (Tween_restart n1 n2 t)"
  using run_stopped_if_completed [of ops "Tween_init fv tv d e rep ucb ccb auto pp now1 now2"]
    init_not_completed [of fv tv d e rep ucb ccb auto pp now1 now2]
    start_runs [of now t] op_keeps_completed [of t x] restart_not_completed [of n1 n2 t]
  by blast


text \<open>
  A run with a \<^verbatim>\<open>start\<close> before completion: the tween completes, is stopped, and a
  later \<^verbatim>\<open>update\<close> leaves it completed.
\<close>

theorem completed_implies_stopped_witness:
  "start_guarded [Start 5, Update 1005 0 0, Stop, Flip]
      (Tween_init (VInt 0) (VInt 100) 1 ''linear'' 0 None None True 0 0 0)
   \<and> is_completed (run_ops [Start 5, Update 1005 0 0, Stop, Flip]
      (Tween_init (VInt 0) (VInt 100) 1 ''linear'' 0 None None True 0 0 0))
   \<and> \<not> is_running (run_ops [Start 5, Update 1005 0 0, Stop, Flip]
      (Tween_init (VInt 0) (VInt 100) 1 ''linear'' 0 None None True 0 0 0))
   \<and> is_completed (apply_op (Update 2000 0 0) (run_ops [Start 5, Update 1005 0 0, Stop, Flip]
      (Tween_init (VInt 0) (VInt 100) 1 ''linear'' 0 None None True 0 0 0)))"
  using completed_implies_stopped [of "[Start 5, Update 1005 0 0, Stop, Flip]"
      "VInt 0" "VInt 100" 1 "''linear''" 0 None None True 0 0 0 0
      "run_ops [Start 5, Update 1005 0 0, Stop, Flip]
        (Tween_init (VInt 0) (VInt 100) 1 ''linear'' 0 None None True 0 0 0)"
      "Update 2000 0 0" 0 0]
  by (simp add: example_init example_start example_completes)
    (simp add: example_tween_def tween_defs Tween_update_def)

subsection \<open>Ping-pong\<close>

lemma done_props: "props (Tween_done a b s) = props s"
  by (simp add: tween_defs Let_def)

lemma forward_leg:
  assumes "pingpong (props t) \<noteq> 0" and "direction t = 1"
  shows "count (Tween_done a b t) = count t \<and> direction (Tween_done a b t) = - 1
     \<and> pingpong_n (Tween_done a b t) = pingpong_n t
     \<and> is_running (Tween_done a b t) \<and> \<not> is_completed (Tween_done a b t)"
  using assms by (simp add: tween_defs Let_def)

lemma last_reverse_leg:
  assumes "pingpong (props s) = 1" and "direction s = - 1" and "pingpong_n s = 0"
  shows "tvalue (Tween_done c d s) = from_value (props s) \<and> pingpong_n (Tween_done c d s) = 0
     \<and> direction (Tween_done c d s) = 1 \<and> count (Tween_done c d s) = count s + 1"
  using assms by (simp add: tween_defs Let_def)

text \<open>
  An \<^verbatim>\<open>update\<close> within a leg leaves the properties, the direction and the two counters
  as they are; an \<^verbatim>\<open>update\<close> at the end of a leg calls \<^verbatim>\<open>done\<close> on such a state.
\<close>

lemma update_on_leg:
  "(props (fst (Tween_update n a b t)) = props t
      \<and> direction (fst (Tween_update n a b t)) = direction t
      \<and> pingpong_n (fst (Tween_update n a b t)) = pingpong_n t
      \<and> count (fst (Tween_update n a b t)) = count t)
   \<or> (\<exists>s. props s = props t \<and> direction s = direction t \<and> pingpong_n s = pingpong_n t
          \<and> count s = count t \<and> fst (Tween_update n a b t) = Tween_done a b s)"
proof (rule update_cases [where Q = "\<lambda>u. (props u = props t \<and> direction u = direction t
      \<and> pingpong_n u = pingpong_n t \<and> count u = count t)
   \<or> (\<exists>s. props s = props t \<and> direction s = direction t \<and> pingpong_n s = pingpong_n t
          \<and> count s = count t \<and> u = Tween_done a b s)"])
  fix tm v
  let ?s = "Tween_trigger ''update'' v (t\<lparr>time := tm, tvalue := v\<rparr>)"
  have "props ?s = props t \<and> direction ?s = direction t \<and> pingpong_n ?s = pingpong_n t
          \<and> count ?s = count t"
    by (simp add: Tween_trigger_def)
  then show "(props (Tween_done a b ?s) = props t \<and> direction (Tween_done a b ?s) = direction t
      \<and> pingpong_n (Tween_done a b ?s) = pingpong_n t \<and> count (Tween_done a b ?s) = count t)
   \<or> (\<exists>s. props s = props t \<and> direction s = direction t \<and> pingpong_n s = pingpong_n t
          \<and> count s = count t \<and> Tween_done a b ?s = Tween_done a b s)"
    by blast
qed (simp_all add: Tween_trigger_def)

text \<open>
  Claim C8. For a tween with \<^verbatim>\<open>pingpong=1\<close> on its forward leg (direction 1, ping-pong
  counter 0), the \<^verbatim>\<open>done\<close> that ends the forward leg leaves the repeat counter as it
  is and turns the direction; and for every state \<open>t'\<close> of the reverse leg (the
  properties, the direction and the ping-pong counter are those at the start of the leg,
  whatever the updates in between have done to the rest), the \<^verbatim>\<open>done\<close> that ends the
  reverse leg leaves the value at \<^verbatim>\<open>from_value\<close>, the ping-pong counter at 0 and the
  direction forward.
\<close>

theorem pingpong_pair:
  assumes "pingpong (props t) = 1" and "direction t = 1" and "pingpong_n t = 0"
    and "props t' = props (Tween_done a b t)"
    and "direction t' = direction (Tween_done a b t)"
    and "pingpong_n t' = pingpong_n (Tween_done a b t)"
  shows "count (Tween_done a b t) = count t \<and> direction (Tween_done a b t) = - 1
     \<and> tvalue (Tween_done c d t') = from_value (props t)
     \<and> pingpong_n (Tween_done c d t') = 0 \<and> direction (Tween_done c d t') = 1"
proof -
  have fwd: "count (Tween_done a b t) = count t \<and> direction (Tween_done a b t) = - 1
     \<and> pingpong_n (Tween_done a b t) = pingpong_n t"
    using forward_leg [of t a b] assms(1,2) by simp
  have "pingpong (props t') = 1" and "direction t' = - 1" and "pingpong_n t' = 0"
    using assms fwd by (simp_all add: done_props)
  then have "tvalue (Tween_done c d t') = from_value (props t') \<and> pingpong_n (Tween_done c d t') = 0
     \<and> direction (Tween_done c d t') = 1"
    using last_reverse_leg [of t' c d] by simp
  with fwd assms(4) show ?thesis
    by (simp add: done_props)
qed

lemma example_done_forward:
  "Tween_done 1000 1000 (Tween_init (VInt 0) (VInt 100) 1 ''linear'' 1 None None True 1 0 0) =
     example_tween 1 1 1000 0 (- 1) (VInt 100) []"
  by (simp add: example_init) (simp add: example_tween_def tween_defs)

text \<open>
  The example tween with \<^verbatim>\<open>pingpong=1\<close>: forward leg ended at 1000, halfway back (value
  50) at 1500, reverse leg ended at 2000 with the value back at 0.
\<close>

theorem pingpong_pair_witness:
  "count (Tween_done 1000 1000
      (Tween_init (VInt 0) (VInt 100) 1 ''linear'' 1 None None True 1 0 0)) = 0
   \<and> direction (Tween_done 1000 1000
      (Tween_init (VInt 0) (VInt 100) 1 ''linear'' 1 None None True 1 0 0)) = - 1
   \<and> tvalue (fst (Tween_update 1500 0 0 (Tween_done 1000 1000
      (Tween_init (VInt 0) (VInt 100) 1 ''linear'' 1 None None True 1 0 0)))) = VInt 50
   \<and> tvalue (Tween_done 2000 2000 (fst (Tween_update 1500 0 0 (Tween_done 1000 1000
      (Tween_init (VInt 0) (VInt 100) 1 ''linear'' 1 None None True 1 0 0))))) = VInt 0
   \<and> pingpong_n (Tween_done 2000 2000 (fst (Tween_update 1500 0 0 (Tween_done 1000 1000
      (Tween_init (VInt 0) (VInt 100) 1 ''linear'' 1 None None True 1 0 0))))) = 0
   \<and> direction (Tween_done 2000 2000 (fst (Tween_update 1500 0 0 (Tween_done 1000 1000
      (Tween_init (VInt 0) (VInt 100) 1 ''linear'' 1 None None True 1 0 0))))) = 1"
  using pingpong_pair [of "Tween_init (VInt 0) (VInt 100) 1 ''linear'' 1 None None True 1 0 0"
      "fst (Tween_update 1500 0 0 (Tween_done 1000 1000
        (Tween_init (VInt 0) (VInt 100) 1 ''linear'' 1 None None True 1 0 0)))"
      1000 1000 2000 2000]
    example_halfway_back [of 1000 0 0 1 1 0 "VInt 100" "[]"]
  by (simp add: example_done_forward) (simp add: example_tween_def example_init)

section \<open>Properties of collections and groups\<close>

subsection \<open>Stopping a collection\<close>

lemma stop_twice: "Tween_stop (Tween_stop t) = Tween_stop t"
  by (simp add: Tween_stop_def Events_reset_def Let_def)

lemma stop_stopped:
  "\<not> is_running (Tween_stop t) \<and> listeners (events (Tween_stop t)) = Map.empty"
  by (simp add: Tween_stop_def Events_reset_def Let_def)

text \<open>
  The loop of \<^verbatim>\<open>Tweens.stop\<close> in closed form: every tween of the list is stopped (once,
  or more often when the list holds it more than once, which makes no difference), and
  the list is empty.
\<close>

lemma Tweens_stop_result:
  "Tweens_stop (h, c) =
     ((\<lambda>r. if r \<in> set (tweens c) then Tween_stop (h r) else h r), c\<lparr>tweens := []\<rparr>)"
proof (induction "length (tweens c)" arbitrary: h c)
  case 0
  then show ?case
    by (subst Tweens_stop.simps) simp
next
  case (Suc n)
  let ?xs = "tweens c"
  let ?h' = "h(last ?xs := Tween_stop (h (last ?xs)))"
  let ?c' = "c\<lparr>tweens := butlast ?xs\<rparr>"
  from Suc.hyps(2) have ne: "?xs \<noteq> []"
    by auto
  then have xs: "set ?xs = insert (last ?xs) (set (butlast ?xs))"
    by (metis append_butlast_last_id list.simps(15) rotate1.simps(2) set_rotate1)
  have "n = length (tweens ?c')"
    using Suc.hyps(2) by simp
  then have "Tweens_stop (?h', ?c') =
     ((\<lambda>r. if r \<in> set (tweens ?c') then Tween_stop (?h' r) else ?h' r), ?c'\<lparr>tweens := []\<rparr>)"
    by (rule Suc.hyps(1))
  moreover have "Tweens_stop (h, c) = Tweens_stop (?h', ?c')"
    using ne by (subst Tweens_stop.simps) (simp add: Let_def)
  moreover have "(\<lambda>r. if r \<in> set (tweens ?c') then Tween_stop (?h' r) else ?h' r) =
     (\<lambda>r. if r \<in> set ?xs then Tween_stop (h r) else h r)"
    using xs by (auto simp add: fun_eq_iff stop_twice)
  ultimately show ?case
    by simp
qed

lemma pause_each_keeps: "is_paused (h r) \<Longrightarrow> is_paused (pause_each clock i xs h r)"
  by (induction xs arbitrary: i h) (simp_all add: Tween_pause_def)

lemma pause_each_paused: "r \<in> set xs \<Longrightarrow> is_paused (pause_each clock i xs h r)"
proof (induction xs arbitrary: i h)
  case Nil
  then show ?case by simp
next
  case (Cons x xs)
  show ?case
  proof (cases "r = x")
    case True
    have "is_paused ((h(x := Tween_pause (clock i) (h x))) r)"
      using True by (simp add: Tween_pause_def)
    then show ?thesis
      by (simp add: pause_each_keeps)
  next
    case False
    with Cons show ?thesis by simp
  qed
qed

text \<open>
  Claim C10. \<^verbatim>\<open>Tweens.stop()\<close> leaves the collection empty; every tween that the
  collection held is in the state that \<^verbatim>\<open>Tween.stop\<close> leaves it in (not running, its
  listeners cleared), and no other tween of the store is touched. \<^verbatim>\<open>reset()\<close> is
  \<^verbatim>\<open>stop()\<close>. \<^verbatim>\<open>pause()\<close> and \<^verbatim>\<open>unpause()\<close> keep the list as it is, and after
  \<^verbatim>\<open>pause()\<close> every tween of the list is paused.
\<close>

theorem tweens_stop_releases_all:
  "tweens (snd (Tweens_stop (h, c))) = []
   \<and> (\<forall>r \<in> set (tweens c).
         fst (Tweens_stop (h, c)) r = Tween_stop (h r)
         \<and> \<not> is_running (fst (Tweens_stop (h, c)) r)
         \<and> listeners (events (fst (Tweens_stop (h, c)) r)) = Map.empty)
   \<and> (\<forall>r. r \<notin> set (tweens c) \<longrightarrow> fst (Tweens_stop (h, c)) r = h r)
   \<and> Tweens_reset (h, c) = Tweens_stop (h, c)
   \<and> tweens (snd (Tweens_pause clock (h, c))) = tweens c
   \<and> (\<forall>r \<in> set (tweens c). is_paused (fst (Tweens_pause clock (h, c)) r))
   \<and> tweens (snd (Tweens_unpause clock (h, c))) = tweens c"
  by (simp add: Tweens_stop_result stop_stopped Tweens_reset_def Tweens_pause_def
      Tweens_unpause_def pause_each_paused)

text \<open>
  A collection of the tweens at addresses 0 and 1: stopping empties it and stops both,
  the tween at address 2 runs on; pausing keeps both.
\<close>

theorem tweens_stop_releases_all_witness:
  "tweens (snd (Tweens_stop (\<lambda>r. example_tween 1 0 0 0 1 (VInt 0) [], \<lparr>tweens = [0, 1]\<rparr>))) = []
   \<and> \<not> is_running (fst (Tweens_stop
        (\<lambda>r. example_tween 1 0 0 0 1 (VInt 0) [], \<lparr>tweens = [0, 1]\<rparr>)) 0)
   \<and> \<not> is_running (fst (Tweens_stop
        (\<lambda>r. example_tween 1 0 0 0 1 (VInt 0) [], \<lparr>tweens = [0, 1]\<rparr>)) 1)
   \<and> is_running (fst (Tweens_stop
        (\<lambda>r. example_tween 1 0 0 0 1 (VInt 0) [], \<lparr>tweens = [0, 1]\<rparr>)) 2)
   \<and> tweens (snd (Tweens_pause (\<lambda>i. 5)
        (\<lambda>r. example_tween 1 0 0 0 1 (VInt 0) [], \<lparr>tweens = [0, 1]\<rparr>))) = [0, 1]
   \<and> is_paused (fst (Tweens_pause (\<lambda>i. 5)
        (\<lambda>r. example_tween 1 0 0 0 1 (VInt 0) [], \<lparr>tweens = [0, 1]\<rparr>)) 1)"
  using tweens_stop_releases_all [of "\<lambda>r. example_tween 1 0 0 0 1 (VInt 0) []"
      "\<lparr>tweens = [0, 1]\<rparr>" "\<lambda>i. 5"]
  by (simp add: Tweens_stop_result Tweens_pause_def Tween_stop_def Tween_pause_def
      example_tween_def)

subsection \<open>The relay of a group\<close>

lemma relay_run_append: "relay_run g (xs @ ys) r = relay_run g ys (relay_run g xs r)"
  by (induction xs arbitrary: r) auto

lemma fire_tweens_fired:
  "tweens_fired (on_tween_fire g i arg r) = insert i (tweens_fired r)"
  by (simp add: on_tween_fire_def Let_def)

lemma fire_calls:
  "calls (on_tween_fire g i arg r) =
     (if card (insert i (tweens_fired r)) = length (gtweens g) then calls r @ [arg]
      else calls r)"
  by (simp add: on_tween_fire_def Let_def)

lemma relay_run_tweens_fired:
  "tweens_fired (relay_run g fs r) = tweens_fired r \<union> (fst \<circ> snd) ` set fs"
proof (induction fs arbitrary: r)
  case Nil
  then show ?case by simp
next
  case (Cons f fs)
  obtain tw i arg where f: "f = (tw, i, arg)"
    by (cases f)
  show ?case
    by (simp add: f Cons.IH fire_tweens_fired)
qed

lemma relay_run_full:
  assumes "finite (tweens_fired r)" and "length (gtweens g) < card (tweens_fired r)"
  shows "calls (relay_run g fs r) = calls r"
  using assms
proof (induction fs arbitrary: r)
  case Nil
  then show ?case by simp
next
  case (Cons f fs)
  obtain tw i arg where f: "f = (tw, i, arg)"
    by (cases f)
  have "card (tweens_fired r) \<le> card (insert i (tweens_fired r))"
    using Cons.prems(1) by (simp add: card_insert_le)
  with Cons.prems have big: "length (gtweens g) < card (insert i (tweens_fired r))"
    by simp
  then have "calls (on_tween_fire g i arg r) = calls r"
    by (simp add: fire_calls)
  moreover have "calls (relay_run g fs (on_tween_fire g i arg r)) = calls (on_tween_fire g i arg r)"
    using Cons.prems(1) big by (intro Cons.IH) (simp_all add: fire_tweens_fired)
  ultimately show ?case
    by (simp add: f)
qed

text \<open>
  Two tweens that fire an event twice each, in turn: whatever the identities of the
  four argument tuples are, the calls of the group's callback are not the two calls of
  the specification. (For a call after the second firing the first two identities must
  differ; then the third firing calls again unless its identity is new, and after a new
  one the set holds three entries and the fourth firing does not call.)
\<close>

lemma relay_never_as_claimed:
  "calls (relay_run \<lparr>gtweens = [0, 1]\<rparr>
      [(0, i1, VInt 1), (1, i2, VInt 2), (0, i3, VInt 3), (1, i4, VInt 4)] relay_init)
   \<noteq> snd (claimed_relay_run \<lparr>gtweens = [0, 1]\<rparr>
      [(0, i1, VInt 1), (1, i2, VInt 2), (0, i3, VInt 3), (1, i4, VInt 4)] ({}, []))"
  by (simp add: on_tween_fire_def relay_init_def Let_def card_insert_if)

text \<open>
  What the relay does, for any identities: the set is never reset, each firing adds
  its entry to it, and the callback of the group runs at a firing exactly when the set
  holds as many entries as the group has tweens after that entry has been added.
\<close>

lemma relay_run_calls:
  "calls (relay_run g (fs @ [(tween, i, arg)]) r) =
     (if card (insert i (tweens_fired r \<union> (fst \<circ> snd) ` set fs)) = length (gtweens g)
      then calls (relay_run g fs r) @ [arg] else calls (relay_run g fs r))"
  by (simp add: relay_run_append fire_calls relay_run_tweens_fired)

text \<open>
  When every tuple of arguments has the same identity, the set never holds more than
  one entry, and the callback of a group of two or more tweens never runs.
\<close>

lemma relay_same_identity:
  assumes "2 \<le> length (gtweens g)" and "\<forall>f \<in> set fs. fst (snd f) = i"
    and "tweens_fired r \<subseteq> {i}"
  shows "calls (relay_run g fs r) = calls r"
  using assms(2,3)
proof (induction fs arbitrary: r)
  case Nil
  then show ?case by simp
next
  case (Cons f fs)
  obtain tw j arg where f: "f = (tw, j, arg)"
    by (cases f)
  have j: "j = i"
    using Cons.prems(1) by (simp add: f)
  have sub: "insert i (tweens_fired r) = {i}"
    using Cons.prems(2) by auto
  have "calls (on_tween_fire g i arg r) = calls r"
    using assms(1) by (simp add: fire_calls sub)
  moreover have "calls (relay_run g fs (on_tween_fire g i arg r)) = calls (on_tween_fire g i arg r)"
    using Cons.prems(1) by (intro Cons.IH) (simp_all add: fire_tweens_fired sub)
  ultimately show ?case
    by (simp add: f j)
qed

text \<open>
  Claim C2 fails, by a defect of the code. The docstring of \<^verbatim>\<open>TweenGroup.on\<close> has the
  callback called \<^emph>\<open>when all tweens have fired\<close>, but what the relay adds to its set is
  \<^verbatim>\<open>id(kwargs)\<close>, the identity of the tuple of arguments, not the tween. Each tuple is
  released when the call returns, and the next one takes its place, so in an ordinary
  run every call sees the same identity (100 here): for a group of two tweens that
  fire one after the other the set holds one entry, and the callback never runs. In
  the words of the specification it runs once, when the second tween fires.
\<close>

theorem group_relay_same_identity:
  "calls (relay_run \<lparr>gtweens = [0, 1]\<rparr>
      [(0, 100, VInt 1), (1, 100, VInt 2)] relay_init) = []
   \<and> tweens_fired (relay_run \<lparr>gtweens = [0, 1]\<rparr>
      [(0, 100, VInt 1), (1, 100, VInt 2)] relay_init) = {100}
   \<and> claimed_relay_run \<lparr>gtweens = [0, 1]\<rparr>
      [(0, 100, VInt 1), (1, 100, VInt 2)] ({}, []) = ({}, [VInt 2])"
  by (simp add: on_tween_fire_def relay_init_def Let_def)

text \<open>
  \<^verbatim>\<open>TweenGroup.on\<close> subscribes the relay to the event on every tween of the group.
\<close>

lemma on_listens:
  "\<exists>l. listeners (events (Tween_on name (Some cb) t)) name = Some l \<and> cb \<in> set l"
  by (simp add: Tween_on_def Events_on_def Let_def)

lemma subscribe_each_keeps:
  assumes "\<exists>l. listeners (events (h r)) name = Some l \<and> cb \<in> set l"
  shows "\<exists>l. listeners (events (subscribe_each name cb xs h r)) name = Some l \<and> cb \<in> set l"
  using assms
proof (induction xs arbitrary: h)
  case Nil
  then show ?case by simp
next
  case (Cons x xs)
  have "\<exists>l. listeners (events ((h(x := Tween_on name (Some cb) (h x))) r)) name = Some l
      \<and> cb \<in> set l"
    using Cons.prems on_listens [of name cb "h x"] by (cases "r = x") simp_all
  then show ?case
    by (simp add: Cons.IH)
qed

lemma subscribe_each_subscribes:
  assumes "r \<in> set xs"
  shows "\<exists>l. listeners (events (subscribe_each name cb xs h r)) name = Some l \<and> cb \<in> set l"
  using assms
proof (induction xs arbitrary: h)
  case Nil
  then show ?case by simp
next
  case (Cons x xs)
  show ?case
  proof (cases "r = x")
    case True
    have "\<exists>l. listeners (events ((h(x := Tween_on name (Some cb) (h x))) r)) name = Some l
        \<and> cb \<in> set l"
      using True on_listens [of name cb "h x"] by simp
    then show ?thesis
      by (simp add: subscribe_each_keeps)
  next
    case False
    with Cons show ?thesis by simp
  qed
qed

lemma group_on_subscribes:
  "r \<in> set (gtweens g) \<Longrightarrow>
   \<exists>l. listeners (events (TweenGroup_on name cb g h r)) name = Some l \<and> cb \<in> set l"
  by (simp add: TweenGroup_on_def subscribe_each_subscribes)

end
